theory Spec2Isabelle
  imports Complex_Main "HOL-Library.Char_ord" "HOL-Library.List_Lexorder"
begin

section \<open>The diabetes prediction script (joji.py) as HOL functions\<close>

text \<open>
  The script is one module executed from top to bottom. Each block of it is a function
  here; the definition \<open>script\<close> composes them in source order. Concrete inputs and the
  tables of the specification follow the model.

  Conventions.
  \<^item> Python floats (and ints, which the table and numpy turn into floats) are \<open>real\<close>:
    rounding is not modelled, and the square root of the scaler is the real one. \<open>NaN\<close>
    in a pandas table is \<open>None\<close>.
  \<^item> A raised exception is \<open>Inl\<close> of a \<open>py_error\<close>.
  \<^item> What the script takes from outside (the download, the random generator, estimator
    fitting, metric functions, the widgets) is a field of the record \<open>env\<close>.
\<close>

subsection \<open>Exceptions\<close>

datatype py_error =
    URLError
  | ValueError
  | KeyError string
  | NameError string
  | IndexError
  | FileNotFoundError
  | UnpicklingError
  | OtherError string

subsection \<open>The table\<close>

datatype column =
    Pregnancies | Glucose | BloodPressure | SkinThickness | Insulin
  | BMI | DiabetesPedigreeFunction | Age | Outcome

type_synonym cell = "real option"

text \<open>A row assigns a cell to each of the nine named columns; a table is a list of rows.\<close>

type_synonym row = "column \<Rightarrow> cell"
type_synonym dataframe = "row list"

definition col_names :: "column list" where
  "col_names = [Pregnancies, Glucose, BloodPressure, SkinThickness, Insulin,
                BMI, DiabetesPedigreeFunction, Age, Outcome]"

definition cols_with_zeros :: "column list" where
  "cols_with_zeros = [Glucose, BloodPressure, SkinThickness, Insulin, BMI]"

definition series :: "dataframe \<Rightarrow> column \<Rightarrow> cell list" where
  "series df c = map (\<lambda>r. r c) df"

text \<open>\<^verbatim>\<open>df[cols_with_zeros] = df[cols_with_zeros].replace(0, np.nan)\<close>\<close>

definition replace_zero_cell :: "cell \<Rightarrow> cell" where
  "replace_zero_cell v = (if v = Some 0 then None else v)"

definition replace_zeros :: "dataframe \<Rightarrow> dataframe" where
  "replace_zeros df =
     map (\<lambda>r c. if c \<in> set cols_with_zeros then replace_zero_cell (r c) else r c) df"

text \<open>\<^verbatim>\<open>df.median()\<close>: per column, the median of the values that are not NaN; NaN when
  there is none. For an even count it is the mean of the two middle values.\<close>

fun dropna :: "cell list \<Rightarrow> real list" where
  "dropna [] = []"
| "dropna (None # vs) = dropna vs"
| "dropna (Some v # vs) = v # dropna vs"

definition median :: "real list \<Rightarrow> cell" where
  "median xs =
     (let s = sort xs; n = length s in
      if n = 0 then None
      else if odd n then Some (s ! (n div 2))
      else Some ((s ! (n div 2 - 1) + s ! (n div 2)) / 2))"

definition df_median :: "dataframe \<Rightarrow> column \<Rightarrow> cell" where
  "df_median df c = median (dropna (series df c))"

text \<open>\<^verbatim>\<open>df.fillna(df.median(), inplace=True)\<close>: in every column a NaN becomes the column's
  median; where the median is itself NaN the cell stays NaN.\<close>

definition fillna_cell :: "cell \<Rightarrow> cell \<Rightarrow> cell" where
  "fillna_cell m v = (case v of None \<Rightarrow> m | Some x \<Rightarrow> Some x)"

definition fillna :: "(column \<Rightarrow> cell) \<Rightarrow> dataframe \<Rightarrow> dataframe" where
  "fillna med df = map (\<lambda>r c. fillna_cell (med c) (r c)) df"

definition clean :: "dataframe \<Rightarrow> dataframe" where
  "clean df0 = (let df = replace_zeros df0 in fillna (df_median df) df)"

subsection \<open>Feature scaling: \<^verbatim>\<open>StandardScaler\<close>\<close>

type_synonym matrix = "real list list"

definition feature_cols :: "column list" where
  "feature_cols = [Pregnancies, Glucose, BloodPressure, SkinThickness, Insulin,
                   BMI, DiabetesPedigreeFunction, Age]"

text \<open>The estimators work on numeric arrays and reject NaN with \<^verbatim>\<open>ValueError\<close>. The scaler
  and the split let NaN through and the first \<^verbatim>\<open>model.fit\<close> raises; nothing is shown or
  written in between, so the model raises where the arrays \<^verbatim>\<open>X\<close> and \<^verbatim>\<open>y\<close> are formed.\<close>

fun to_numeric :: "cell list \<Rightarrow> py_error + real list" where
  "to_numeric [] = Inr []"
| "to_numeric (None # vs) = Inl ValueError"
| "to_numeric (Some v # vs) =
     (case to_numeric vs of Inl err \<Rightarrow> Inl err | Inr ws \<Rightarrow> Inr (v # ws))"

fun to_numeric_rows :: "cell list list \<Rightarrow> py_error + matrix" where
  "to_numeric_rows [] = Inr []"
| "to_numeric_rows (r # rs) =
     (case to_numeric r of
        Inl err \<Rightarrow> Inl err
      | Inr x \<Rightarrow> (case to_numeric_rows rs of Inl err \<Rightarrow> Inl err | Inr xs \<Rightarrow> Inr (x # xs)))"

definition drop_outcome :: "dataframe \<Rightarrow> cell list list" where
  "drop_outcome df = map (\<lambda>r. map r feature_cols) df"

record scaler_state =
  scaler_mean :: "real list"
  scaler_scale :: "real list"

definition mean :: "real list \<Rightarrow> real" where
  "mean xs = sum_list xs / real (length xs)"

definition var :: "real list \<Rightarrow> real" where
  "var xs = (let m = mean xs in sum_list (map (\<lambda>x. (x - m)\<^sup>2) xs) / real (length xs))"

definition handle_zeros_in_scale :: "real \<Rightarrow> real" where
  "handle_zeros_in_scale s = (if s = 0 then 1 else s)"

definition matrix_column :: "matrix \<Rightarrow> nat \<Rightarrow> real list" where
  "matrix_column X j = map (\<lambda>r. r ! j) X"

definition scaler_fit :: "matrix \<Rightarrow> py_error + scaler_state" where
  "scaler_fit X =
     (case X of
        [] \<Rightarrow> Inl ValueError
      | r # _ \<Rightarrow>
          let cols = map (matrix_column X) [0..<length r]
          in Inr \<lparr>scaler_mean = map mean cols,
                  scaler_scale = map (\<lambda>c. handle_zeros_in_scale (sqrt (var c))) cols\<rparr>)"

definition scale_row :: "scaler_state \<Rightarrow> real list \<Rightarrow> real list" where
  "scale_row sc r = map (\<lambda>(x, m, s). (x - m) / s) (zip r (zip (scaler_mean sc) (scaler_scale sc)))"

definition scaler_transform :: "scaler_state \<Rightarrow> matrix \<Rightarrow> py_error + matrix" where
  "scaler_transform sc X =
     (if list_ex (\<lambda>r. length r \<noteq> length (scaler_mean sc)) X then Inl ValueError
      else Inr (map (scale_row sc) X))"

definition fit_transform :: "matrix \<Rightarrow> py_error + (scaler_state \<times> matrix)" where
  "fit_transform X =
     (case scaler_fit X of
        Inl err \<Rightarrow> Inl err
      | Inr sc \<Rightarrow> (case scaler_transform sc X of Inl err \<Rightarrow> Inl err | Inr Xs \<Rightarrow> Inr (sc, Xs)))"

subsection \<open>\<^verbatim>\<open>train_test_split\<close>\<close>

text \<open>The library draws a permutation of the row numbers from a generator seeded with
  \<^verbatim>\<open>random_state\<close>; the first \<open>n_test\<close> of it are the test rows, the next \<open>n_train\<close> the
  train rows. The generator is the parameter \<open>perm\<close> (seed and length to permutation).
  \<open>n_test\<close> is the ceiling of \<open>test_size * n\<close>, \<open>n_train\<close> the rest; an empty train set is
  refused. (For \<open>test_size = 0.2\<close> the rounded product of the floats has the same ceiling
  as the exact fifth of \<open>n\<close>.)\<close>

definition shuffle_split_indices ::
  "(nat \<Rightarrow> nat \<Rightarrow> nat list) \<Rightarrow> nat \<Rightarrow> real \<Rightarrow> nat \<Rightarrow> py_error + (nat list \<times> nat list)" where
  "shuffle_split_indices perm n test_size random_state =
     (if test_size \<le> 0 \<or> test_size \<ge> 1 then Inl ValueError
      else
        let n_test = nat \<lceil>test_size * real n\<rceil>; n_train = n - n_test in
        if n_train = 0 then Inl ValueError
        else
          let p = perm random_state n
          in Inr (take n_train (drop n_test p), take n_test p))"

definition safe_indexing :: "'a list \<Rightarrow> nat list \<Rightarrow> py_error + 'a list" where
  "safe_indexing xs idx =
     (if list_ex (\<lambda>i. i \<ge> length xs) idx then Inl IndexError
      else Inr (map (\<lambda>i. xs ! i) idx))"

definition train_test_split ::
  "(nat \<Rightarrow> nat \<Rightarrow> nat list) \<Rightarrow> 'a list \<Rightarrow> 'b list \<Rightarrow> real \<Rightarrow> nat
     \<Rightarrow> py_error + ('a list \<times> 'a list \<times> 'b list \<times> 'b list)" where
  "train_test_split perm X y test_size random_state =
     (if length X \<noteq> length y then Inl ValueError
      else
        case shuffle_split_indices perm (length X) test_size random_state of
          Inl err \<Rightarrow> Inl err
        | Inr (train, test) \<Rightarrow>
           (case safe_indexing X train of Inl err \<Rightarrow> Inl err | Inr Xtr \<Rightarrow>
           (case safe_indexing X test of Inl err \<Rightarrow> Inl err | Inr Xte \<Rightarrow>
           (case safe_indexing y train of Inl err \<Rightarrow> Inl err | Inr ytr \<Rightarrow>
           (case safe_indexing y test of Inl err \<Rightarrow> Inl err | Inr yte \<Rightarrow>
              Inr (Xtr, Xte, ytr, yte))))))"


subsection \<open>Estimators\<close>

datatype clf_class =
  LogisticRegression | DecisionTreeClassifier | RandomForestClassifier | SVC | AdaBoostClassifier

datatype param_value =
    PNone
  | PInt int
  | PFloat real
  | PStr string
  | PBool bool
  | PEstimator clf_class "(string \<times> param_value) list"

type_synonym params = "(string \<times> param_value) list"
type_synonym estimator = "clf_class \<times> params"

text \<open>A fitted estimator is its \<^verbatim>\<open>predict\<close> on one row.\<close>

type_synonym classifier = "real list \<Rightarrow> real"

definition predict :: "classifier \<Rightarrow> matrix \<Rightarrow> real list" where
  "predict m X = map m X"

text \<open>\<^verbatim>\<open>d[k] = v\<close> on an insertion-ordered dict.\<close>

fun dict_set :: "('k \<times> 'v) list \<Rightarrow> 'k \<Rightarrow> 'v \<Rightarrow> ('k \<times> 'v) list" where
  "dict_set [] k v = [(k, v)]"
| "dict_set ((k', v') # d) k v = (if k' = k then (k, v) # d else (k', v') # dict_set d k v)"

definition models :: "(string \<times> estimator) list" where
  "models =
     [(''Logistic Regression'', (LogisticRegression, [])),
      (''Decision Tree'', (DecisionTreeClassifier, [])),
      (''Random Forest'', (RandomForestClassifier, [(''n_estimators'', PInt 100)])),
      (''SVM'', (SVC, [(''kernel'', PStr ''linear''), (''probability'', PBool True)])),
      (''AdaBoost'',
         (AdaBoostClassifier,
          [(''estimator'', PEstimator DecisionTreeClassifier [(''max_depth'', PInt 1)]),
           (''n_estimators'', PInt 50)]))]"

subsection \<open>The environment of one run\<close>

datatype event =
    St_title string
  | St_write string
  | St_write_value string real
  | St_dataframe dataframe
  | St_write_describe dataframe
  | St_pyplot_heatmap dataframe
  | St_error string
  | St_success string

datatype stored_file = Pickle classifier | Unreadable

type_synonym filesystem = "string \<rightharpoonup> stored_file"

record env =
  read_csv :: "py_error + dataframe"
  permutation :: "nat \<Rightarrow> nat \<Rightarrow> nat list"
  fit :: "estimator \<Rightarrow> matrix \<Rightarrow> real list \<Rightarrow> py_error + classifier"
  accuracy_score :: "real list \<Rightarrow> real list \<Rightarrow> py_error + real"
  precision_score :: "real list \<Rightarrow> real list \<Rightarrow> py_error + real"
  recall_score :: "real list \<Rightarrow> real list \<Rightarrow> py_error + real"
  f1_score :: "real list \<Rightarrow> real list \<Rightarrow> py_error + real"
  cv_mean_score :: "estimator \<Rightarrow> nat \<Rightarrow> string \<Rightarrow> matrix \<Rightarrow> real list \<Rightarrow> real"
  checkbox :: "string \<Rightarrow> bool"
  selectbox :: "string \<Rightarrow> string"
  number_entry :: "string \<Rightarrow> real option"
  button :: "string \<Rightarrow> bool"

subsection \<open>Step 1: load the dataset\<close>

text \<open>\<^verbatim>\<open>load_data\<close>: only \<^verbatim>\<open>URLError\<close> is caught (message shown, \<^verbatim>\<open>None\<close> returned); any
  other exception of \<^verbatim>\<open>read_csv\<close> leaves the function. The result pairs the returned
  value with the messages shown.\<close>

definition load_data :: "env \<Rightarrow> py_error + (dataframe option \<times> event list)" where
  "load_data e =
     (case read_csv e of
        Inl URLError \<Rightarrow> Inr (None, [St_error ''Failed to load data.''])
      | Inl err \<Rightarrow> Inl err
      | Inr df \<Rightarrow> Inr (Some (clean df), []))"

subsection \<open>Step 2: exploratory data analysis\<close>

definition eda :: "env \<Rightarrow> dataframe \<Rightarrow> event list" where
  "eda e data =
     [St_title ''Diabetes Prediction Web App'',
      St_write ''### Exploratory Data Analysis (EDA)'']
     @ (if checkbox e ''Show Dataset'' then [St_dataframe data] else [])
     @ (if checkbox e ''Show Summary Statistics'' then [St_write_describe data] else [])
     @ (if checkbox e ''Show Correlation Heatmap'' then [St_pyplot_heatmap data] else [])"

subsection \<open>Step 3: scaling, split, training and selection\<close>

record prepared =
  scaler :: scaler_state
  X_train :: matrix
  X_test :: matrix
  y_train :: "real list"
  y_test :: "real list"

text \<open>Lines 63 to 71: \<^verbatim>\<open>X\<close>, \<^verbatim>\<open>y\<close>, \<^verbatim>\<open>scaler.fit_transform(X)\<close>, then the split of the scaled
  array with \<^verbatim>\<open>test_size=0.2, random_state=42\<close>.\<close>

definition features :: "dataframe \<Rightarrow> py_error + matrix" where
  "features data = to_numeric_rows (drop_outcome data)"

definition labels :: "dataframe \<Rightarrow> py_error + real list" where
  "labels data = to_numeric (series data Outcome)"

definition scale_and_split :: "env \<Rightarrow> dataframe \<Rightarrow> py_error + prepared" where
  "scale_and_split e data =
     (case features data of
        Inl err \<Rightarrow> Inl err
      | Inr X \<Rightarrow>
     (case labels data of
        Inl err \<Rightarrow> Inl err
      | Inr y \<Rightarrow>
     (case fit_transform X of
        Inl err \<Rightarrow> Inl err
      | Inr (sc, X_scaled) \<Rightarrow>
     (case train_test_split (permutation e) X_scaled y 0.2 42 of
        Inl err \<Rightarrow> Inl err
      | Inr (Xtr, Xte, ytr, yte) \<Rightarrow>
          Inr \<lparr>scaler = sc, X_train = Xtr, X_test = Xte, y_train = ytr, y_test = yte\<rparr>))))"

record metrics =
  Accuracy :: real
  Precision :: real
  Recall :: real
  F1_Score :: real

text \<open>The body of the training loop for one model.\<close>

definition evaluate :: "env \<Rightarrow> prepared \<Rightarrow> estimator \<Rightarrow> py_error + metrics" where
  "evaluate e p model =
     (case fit e model (X_train p) (y_train p) of
        Inl err \<Rightarrow> Inl err
      | Inr fitted \<Rightarrow>
     (let y_pred = predict fitted (X_test p) in
     (case accuracy_score e (y_test p) y_pred of
        Inl err \<Rightarrow> Inl err
      | Inr acc \<Rightarrow>
     (case precision_score e (y_test p) y_pred of
        Inl err \<Rightarrow> Inl err
      | Inr precision \<Rightarrow>
     (case recall_score e (y_test p) y_pred of
        Inl err \<Rightarrow> Inl err
      | Inr recall \<Rightarrow>
     (case f1_score e (y_test p) y_pred of
        Inl err \<Rightarrow> Inl err
      | Inr f1 \<Rightarrow>
          Inr \<lparr>Accuracy = acc, Precision = precision, Recall = recall, F1_Score = f1\<rparr>))))))"

text \<open>\<^verbatim>\<open>for name, model in models.items(): ... results[name] = {...}\<close>\<close>

fun training_loop ::
  "env \<Rightarrow> prepared \<Rightarrow> (string \<times> estimator) list \<Rightarrow> (string \<times> metrics) list
     \<Rightarrow> py_error + (string \<times> metrics) list" where
  "training_loop e p [] results = Inr results"
| "training_loop e p ((name, model) # rest) results =
     (case evaluate e p model of
        Inl err \<Rightarrow> Inl err
      | Inr m \<Rightarrow> training_loop e p rest (dict_set results name m))"

text \<open>Python's \<^verbatim>\<open>max(iterable, key=...)\<close>: the first item is the candidate; a later item
  replaces it only when its key is strictly greater. An empty iterable raises
  \<^verbatim>\<open>ValueError\<close>.\<close>

fun max_loop :: "('a \<Rightarrow> real) \<Rightarrow> 'a \<Rightarrow> 'a list \<Rightarrow> 'a" where
  "max_loop key best [] = best"
| "max_loop key best (x # xs) =
     (if key x > key best then max_loop key x xs else max_loop key best xs)"

definition py_max :: "'a list \<Rightarrow> ('a \<Rightarrow> real) \<Rightarrow> py_error + 'a" where
  "py_max xs key = (case xs of [] \<Rightarrow> Inl ValueError | x # rest \<Rightarrow> Inr (max_loop key x rest))"

text \<open>\<^verbatim>\<open>lambda x: results[x]["F1-Score"]\<close>; it is only applied to keys of \<^verbatim>\<open>results\<close>, so the
  lookup never misses (the value given for a miss is never used).\<close>

definition f1_of :: "(string \<times> metrics) list \<Rightarrow> string \<Rightarrow> real" where
  "f1_of results x = (case map_of results x of Some m \<Rightarrow> F1_Score m | None \<Rightarrow> 0)"

definition best_model_name :: "(string \<times> metrics) list \<Rightarrow> py_error + string" where
  "best_model_name results = py_max (map fst results) (f1_of results)"

definition dict_get :: "(string \<times> 'v) list \<Rightarrow> string \<Rightarrow> py_error + 'v" where
  "dict_get d k = (case map_of d k of None \<Rightarrow> Inl (KeyError k) | Some v \<Rightarrow> Inr v)"

definition report_best :: "string \<Rightarrow> metrics \<Rightarrow> event list" where
  "report_best name best_metrics =
     [St_write (''### Best Model: *'' @ name @ ''*''),
      St_write_value ''Accuracy'' (Accuracy best_metrics),
      St_write_value ''Precision'' (Precision best_metrics),
      St_write_value ''Recall'' (Recall best_metrics),
      St_write_value ''F1-Score'' (F1_Score best_metrics)]"

subsection \<open>Step 4: hyperparameter tuning of the best model\<close>

type_synonym grid = "(string \<times> param_value list) list"

text \<open>The \<^verbatim>\<open>if\<close>/\<^verbatim>\<open>elif\<close> chain of lines 112 to 128. It has no \<^verbatim>\<open>else\<close>: when no branch is
  taken the variable \<^verbatim>\<open>param_grid\<close> stays unbound, which is \<open>None\<close> here.\<close>

definition param_grid :: "string \<Rightarrow> grid option" where
  "param_grid name =
     (if name = ''Random Forest'' then
        Some [(''n_estimators'', [PInt 50, PInt 100, PInt 200]),
              (''max_depth'', [PNone, PInt 10, PInt 20]),
              (''min_samples_split'', [PInt 2, PInt 5, PInt 10])]
      else if name = ''Decision Tree'' then
        Some [(''max_depth'', [PNone, PInt 10, PInt 20]),
              (''min_samples_split'', [PInt 2, PInt 5, PInt 10])]
      else if name = ''SVM'' then
        Some [(''C'', [PFloat 0.1, PInt 1, PInt 10]),
              (''kernel'', [PStr ''linear'', PStr ''rbf''])]
      else if name = ''Logistic Regression'' then
        Some [(''C'', [PFloat 0.1, PInt 1, PInt 10])]
      else if name = ''AdaBoost'' then
        Some [(''n_estimators'', [PInt 50, PInt 100, PInt 200]),
              (''learning_rate'', [PFloat 0.1, PFloat 0.5, PFloat 1.0])]
      else None)"

text \<open>\<^verbatim>\<open>GridSearchCV\<close>. The candidates are the Cartesian product of the value lists, taken
  with the parameter names in sorted order, the last name varying fastest. Each candidate
  is the base estimator with the candidate's values set. For a classifier and class labels
  the folds are stratified: the search raises \<^verbatim>\<open>ValueError\<close> when the data have fewer rows than
  folds, or when no class has as many members as there are folds (one class with fewer
  only warns). The mean score of a candidate over the \<^verbatim>\<open>cv\<close> folds under the named scorer is
  the environment's \<open>cv_mean_score\<close>. The first candidate of maximal mean score wins, and
  the base estimator with its values is fitted again on the whole of the data given to the
  search.\<close>

record grid_search_cv =
  gs_estimator :: estimator
  gs_param_grid :: grid
  gs_cv :: nat
  gs_scoring :: string

record grid_search_fitted =
  best_params :: params
  best_estimator :: classifier
  best_score :: real

fun product_params :: "grid \<Rightarrow> params list" where
  "product_params [] = [[]]"
| "product_params ((k, vs) # rest) =
     concat (map (\<lambda>v. map (\<lambda>c. (k, v) # c) (product_params rest)) vs)"

definition ParameterGrid :: "grid \<Rightarrow> params list" where
  "ParameterGrid g = product_params (sort_key fst g)"

definition set_params :: "estimator \<Rightarrow> params \<Rightarrow> estimator" where
  "set_params est ps = (fst est, foldl (\<lambda>d (k, v). dict_set d k v) (snd est) ps)"

definition candidate_score ::
  "env \<Rightarrow> grid_search_cv \<Rightarrow> matrix \<Rightarrow> real list \<Rightarrow> params \<Rightarrow> real" where
  "candidate_score e gs X y c =
     cv_mean_score e (set_params (gs_estimator gs) c) (gs_cv gs) (gs_scoring gs) X y"

definition cv_splittable :: "nat \<Rightarrow> real list \<Rightarrow> bool" where
  "cv_splittable n_splits y =
     (n_splits \<le> length y \<and> list_ex (\<lambda>c. n_splits \<le> count_list y c) (remdups y))"

definition grid_search_fit ::
  "env \<Rightarrow> grid_search_cv \<Rightarrow> matrix \<Rightarrow> real list \<Rightarrow> py_error + grid_search_fitted" where
  "grid_search_fit e gs X y =
     (if length X \<noteq> length y then Inl ValueError
      else if \<not> cv_splittable (gs_cv gs) y then Inl ValueError
      else
     (case py_max (ParameterGrid (gs_param_grid gs)) (candidate_score e gs X y) of
        Inl err \<Rightarrow> Inl err
      | Inr best \<Rightarrow>
     (case fit e (set_params (gs_estimator gs) best) X y of
        Inl err \<Rightarrow> Inl err
      | Inr refit \<Rightarrow>
          Inr \<lparr>best_params = best, best_estimator = refit,
               best_score = candidate_score e gs X y best\<rparr>)))"

text \<open>Lines 110 to 132. \<open>bank\<close> is the dict \<^verbatim>\<open>models\<close>. A name that is not a key of it raises
  \<^verbatim>\<open>KeyError\<close> at line 110; a name for which no branch bound \<^verbatim>\<open>param_grid\<close> raises
  \<^verbatim>\<open>NameError\<close> when line 131 reads the variable.\<close>

definition tuning ::
  "env \<Rightarrow> (string \<times> estimator) list \<Rightarrow> string \<Rightarrow> prepared \<Rightarrow> py_error + grid_search_fitted" where
  "tuning e bank name p =
     (case dict_get bank name of
        Inl err \<Rightarrow> Inl err
      | Inr best_model \<Rightarrow>
     (case param_grid name of
        None \<Rightarrow> Inl (NameError ''param_grid'')
      | Some g \<Rightarrow>
          grid_search_fit e
            \<lparr>gs_estimator = best_model, gs_param_grid = g, gs_cv = 5, gs_scoring = ''f1''\<rparr>
            (X_train p) (y_train p)))"

subsection \<open>The model file\<close>

definition dump :: "classifier \<Rightarrow> string \<Rightarrow> filesystem \<Rightarrow> filesystem" where
  "dump m path fs = fs(path \<mapsto> Pickle m)"

definition load :: "filesystem \<Rightarrow> string \<Rightarrow> py_error + classifier" where
  "load fs path =
     (case fs path of
        None \<Rightarrow> Inl FileNotFoundError
      | Some Unreadable \<Rightarrow> Inl UnpicklingError
      | Some (Pickle m) \<Rightarrow> Inr m)"

subsection \<open>Step 5: prediction from the user's input\<close>

text \<open>The number widgets. \<open>number_entry e label\<close> is what the user has typed into the
  widget of that label, \<open>None\<close> when the widget was left alone. The widget takes an entry
  only when it lies within \<^verbatim>\<open>min_value\<close> and \<^verbatim>\<open>max_value\<close>; an entry outside is not taken and the
  widget keeps its value, which in a fresh session is the default \<^verbatim>\<open>value\<close>. The bounds and
  the default are arguments of the widget; the script itself compares no value with a
  bound.\<close>

definition number_input :: "env \<Rightarrow> string \<Rightarrow> real \<Rightarrow> real \<Rightarrow> real \<Rightarrow> real" where
  "number_input e label min_value max_value val =
     (case number_entry e label of
        None \<Rightarrow> val
      | Some v \<Rightarrow> if min_value \<le> v \<and> v \<le> max_value then v else val)"

definition input_data :: "env \<Rightarrow> matrix" where
  "input_data e =
     (let gender = selectbox e ''Gender'';
          pregnancies = (if gender = ''Female'' then number_input e ''Pregnancies'' 0 20 1 else 0);
          glucose = number_input e ''Glucose Level'' 0 300 100;
          blood_pressure = number_input e ''Blood Pressure'' 0 200 70;
          skin_thickness = number_input e ''Skin Thickness'' 0 100 20;
          insulin = number_input e ''Insulin'' 0 900 80;
          bmi = number_input e ''BMI'' 0.0 70.0 25.0;
          diabetes_pedigree = number_input e ''Diabetes Pedigree Function'' 0.0 3.0 0.5;
          age = number_input e ''Age'' 0 120 30
      in [[pregnancies, glucose, blood_pressure, skin_thickness,
           insulin, bmi, diabetes_pedigree, age]])"

definition verdict :: "real \<Rightarrow> event" where
  "verdict p0 =
     (if p0 = 1 then St_error ''The patient is likely to have diabetes.''
      else St_success ''The patient is unlikely to have diabetes.'')"

text \<open>The body of \<^verbatim>\<open>if st.button("Predict Diabetes")\<close>, lines 162 to 175.\<close>

definition predict_diabetes :: "scaler_state \<Rightarrow> filesystem \<Rightarrow> matrix \<Rightarrow> py_error + event" where
  "predict_diabetes sc fs inp =
     (case scaler_transform sc inp of
        Inl err \<Rightarrow> Inl err
      | Inr input_data_scaled \<Rightarrow>
     (case load fs ''diabetes_model.pkl'' of
        Inl err \<Rightarrow> Inl err
      | Inr model \<Rightarrow>
     (case predict model input_data_scaled of
        [] \<Rightarrow> Inl IndexError
      | p0 # _ \<Rightarrow> Inr (verdict p0))))"

subsection \<open>The whole script\<close>

datatype run_status = Completed | Stopped | Raised py_error

record outcome =
  status :: run_status
  shown :: "event list"
  files :: filesystem

definition script :: "env \<Rightarrow> filesystem \<Rightarrow> outcome" where
  "script e fs =
     (case load_data e of
        Inl err \<Rightarrow> \<lparr>status = Raised err, shown = [], files = fs\<rparr>
      | Inr (None, msgs) \<Rightarrow> \<lparr>status = Stopped, shown = msgs, files = fs\<rparr>
      | Inr (Some data, msgs) \<Rightarrow>
     (let out2 = msgs @ eda e data in
     (case scale_and_split e data of
        Inl err \<Rightarrow> \<lparr>status = Raised err, shown = out2, files = fs\<rparr>
      | Inr p \<Rightarrow>
     (case training_loop e p models [] of
        Inl err \<Rightarrow> \<lparr>status = Raised err, shown = out2, files = fs\<rparr>
      | Inr results \<Rightarrow>
     (case best_model_name results of
        Inl err \<Rightarrow> \<lparr>status = Raised err, shown = out2, files = fs\<rparr>
      | Inr name \<Rightarrow>
     (case dict_get results name of
        Inl err \<Rightarrow> \<lparr>status = Raised err, shown = out2, files = fs\<rparr>
      | Inr best_metrics \<Rightarrow>
     (let out3 = out2 @ report_best name best_metrics in
     (case tuning e models name p of
        Inl err \<Rightarrow> \<lparr>status = Raised err, shown = out3, files = fs\<rparr>
      | Inr grid_search \<Rightarrow>
     (let out4 = out3 @ [St_write_value (''Optimized '' @ name @ '' Model F1-Score'')
                           (best_score grid_search)];
          fs' = dump (best_estimator grid_search) ''diabetes_model.pkl'' fs;
          out5 = out4 @ [St_title ''Make a Prediction'']
      in
        if button e ''Predict Diabetes'' then
          (case predict_diabetes (scaler p) fs' (input_data e) of
             Inl err \<Rightarrow> \<lparr>status = Raised err, shown = out5, files = fs'\<rparr>
           | Inr msg \<Rightarrow> \<lparr>status = Completed, shown = out5 @ [msg], files = fs'\<rparr>)
        else \<lparr>status = Completed, shown = out5, files = fs'\<rparr>)))))))))"

subsection \<open>A small concrete run\<close>

text \<open>Five patients, with zeros in the columns where zero stands for a missing value; a
  generator that reverses the row numbers; estimators that answer one fixed label per
  class; the four metrics computed from the counts of true and false positives and
  negatives, with a zero denominator giving 0.\<close>

definition row_of :: "real list \<Rightarrow> row" where
  "row_of vs c =
     (case c of
        Pregnancies \<Rightarrow> Some (vs ! 0) | Glucose \<Rightarrow> Some (vs ! 1)
      | BloodPressure \<Rightarrow> Some (vs ! 2) | SkinThickness \<Rightarrow> Some (vs ! 3)
      | Insulin \<Rightarrow> Some (vs ! 4) | BMI \<Rightarrow> Some (vs ! 5)
      | DiabetesPedigreeFunction \<Rightarrow> Some (vs ! 6) | Age \<Rightarrow> Some (vs ! 7)
      | Outcome \<Rightarrow> Some (vs ! 8))"

definition demo_table :: dataframe where
  "demo_table =
     [row_of [1, 0, 70, 20, 0, 25, 0.5, 30, 0],
      row_of [2, 90, 0, 30, 80, 0, 0.25, 40, 1],
      row_of [3, 110, 80, 0, 100, 35, 1, 50, 1],
      row_of [0, 100, 60, 40, 120, 30, 0.75, 20, 0],
      row_of [4, 120, 90, 10, 60, 20, 1.5, 60, 1]]"

definition demo_fit :: "estimator \<Rightarrow> matrix \<Rightarrow> real list \<Rightarrow> py_error + classifier" where
  "demo_fit est X y =
     Inr (\<lambda>r. case fst est of
                 LogisticRegression \<Rightarrow> 0 | DecisionTreeClassifier \<Rightarrow> 1
               | RandomForestClassifier \<Rightarrow> 1 | SVC \<Rightarrow> 0 | AdaBoostClassifier \<Rightarrow> 1)"

definition count_pairs :: "(real \<times> real \<Rightarrow> bool) \<Rightarrow> real list \<Rightarrow> real list \<Rightarrow> real" where
  "count_pairs P y_true y_pred = real (length (filter P (zip y_true y_pred)))"

definition ratio :: "real \<Rightarrow> real \<Rightarrow> real" where
  "ratio a b = (if b = 0 then 0 else a / b)"

definition demo_accuracy :: "real list \<Rightarrow> real list \<Rightarrow> py_error + real" where
  "demo_accuracy y_true y_pred =
     Inr (ratio (count_pairs (\<lambda>(t, p). t = p) y_true y_pred) (real (length y_true)))"

definition demo_precision :: "real list \<Rightarrow> real list \<Rightarrow> py_error + real" where
  "demo_precision y_true y_pred =
     Inr (ratio (count_pairs (\<lambda>(t, p). t = 1 \<and> p = 1) y_true y_pred)
                (count_pairs (\<lambda>(t, p). p = 1) y_true y_pred))"

definition demo_recall :: "real list \<Rightarrow> real list \<Rightarrow> py_error + real" where
  "demo_recall y_true y_pred =
     Inr (ratio (count_pairs (\<lambda>(t, p). t = 1 \<and> p = 1) y_true y_pred)
                (count_pairs (\<lambda>(t, p). t = 1) y_true y_pred))"

definition demo_f1 :: "real list \<Rightarrow> real list \<Rightarrow> py_error + real" where
  "demo_f1 y_true y_pred =
     Inr (ratio (2 * count_pairs (\<lambda>(t, p). t = 1 \<and> p = 1) y_true y_pred)
                (count_pairs (\<lambda>(t, p). t = 1) y_true y_pred
                 + count_pairs (\<lambda>(t, p). p = 1) y_true y_pred))"

definition demo_cv_mean_score ::
  "estimator \<Rightarrow> nat \<Rightarrow> string \<Rightarrow> matrix \<Rightarrow> real list \<Rightarrow> real" where
  "demo_cv_mean_score est cv scoring X y =
     (if map_of (snd est) ''min_samples_split'' = Some (PInt 5) then 0.75 else 0.5)"

definition demo_env :: env where
  "demo_env =
     \<lparr>read_csv = Inr demo_table,
      permutation = (\<lambda>seed n. rev [0..<n]),
      fit = demo_fit,
      accuracy_score = demo_accuracy,
      precision_score = demo_precision,
      recall_score = demo_recall,
      f1_score = demo_f1,
      cv_mean_score = demo_cv_mean_score,
      checkbox = (\<lambda>label. False),
      selectbox = (\<lambda>label. ''Female''),
      number_entry = (\<lambda>label. None),
      button = (\<lambda>label. True)\<rparr>"

text \<open>A prepared split with one feature, for running the later steps on their own.\<close>

definition demo_prepared :: prepared where
  "demo_prepared =
     \<lparr>scaler = \<lparr>scaler_mean = [0], scaler_scale = [1]\<rparr>,
      X_train = [[0], [1]], X_test = [[0], [1]], y_train = [1, 0], y_test = [1, 0]\<rparr>"

definition demo_results :: "(string \<times> metrics) list" where
  "demo_results =
     [(''Logistic Regression'',
       \<lparr>Accuracy = 1 / 2, Precision = 0, Recall = 0, F1_Score = 0\<rparr>),
      (''Decision Tree'',
       \<lparr>Accuracy = 1 / 2, Precision = 1 / 2, Recall = 1, F1_Score = 2 / 3\<rparr>),
      (''Random Forest'',
       \<lparr>Accuracy = 1 / 2, Precision = 1 / 2, Recall = 1, F1_Score = 2 / 3\<rparr>),
      (''SVM'', \<lparr>Accuracy = 1 / 2, Precision = 0, Recall = 0, F1_Score = 0\<rparr>),
      (''AdaBoost'',
       \<lparr>Accuracy = 1 / 2, Precision = 1 / 2, Recall = 1, F1_Score = 2 / 3\<rparr>)]"


definition demo_classifier :: classifier where
  "demo_classifier = (\<lambda>r. 1)"


subsection \<open>A complete run\<close>

text \<open>Eight patients, enough for the split (two test rows, six train rows) and for the five
  folds of the search. The environment is that of the small run with this table and with
  the given entries in the number widgets. \<open>cohort_X\<close> is the feature array after
  preparation, \<open>cohort_X_train_raw\<close> its rows that the split puts into the train part.\<close>

definition cohort_table :: dataframe where
  "cohort_table =
     [row_of [1, 0, 70, 20, 0, 25, 0.5, 30, 1],
      row_of [5, 90, 0, 30, 80, 0, 0.25, 40, 1],
      row_of [1, 110, 80, 0, 100, 35, 1, 50, 0],
      row_of [5, 100, 60, 40, 120, 30, 0.75, 20, 1],
      row_of [1, 120, 90, 10, 60, 20, 1.5, 60, 1],
      row_of [1, 130, 85, 35, 0, 40, 0.5, 45, 1],
      row_of [5, 95, 65, 25, 90, 22, 0.25, 25, 0],
      row_of [5, 105, 75, 15, 110, 28, 1, 35, 1]]"

definition cohort_env :: "(string \<Rightarrow> real option) \<Rightarrow> env" where
  "cohort_env entries = demo_env\<lparr>read_csv := Inr cohort_table, number_entry := entries\<rparr>"

definition no_entries :: "string \<Rightarrow> real option" where
  "no_entries label = None"


definition cohort_X :: matrix where
  "cohort_X =
     [[1, 105, 70, 20, 95, 25, 1 / 2, 30],
      [5, 90, 75, 30, 80, 28, 1 / 4, 40],
      [1, 110, 80, 25, 100, 35, 1, 50],
      [5, 100, 60, 40, 120, 30, 3 / 4, 20],
      [1, 120, 90, 10, 60, 20, 3 / 2, 60],
      [1, 130, 85, 35, 95, 40, 1 / 2, 45],
      [5, 95, 65, 25, 90, 22, 1 / 4, 25],
      [5, 105, 75, 15, 110, 28, 1, 35]]"

definition cohort_X_train_raw :: matrix where
  "cohort_X_train_raw =
     [cohort_X ! 5, cohort_X ! 4, cohort_X ! 3, cohort_X ! 2, cohort_X ! 1, cohort_X ! 0]"

subsection \<open>The specification's tables\<close>


text \<open>The names that the \<^verbatim>\<open>if\<close>/\<^verbatim>\<open>elif\<close> chain of lines 112 to 127 compares with.\<close>

definition grid_names :: "string list" where
  "grid_names = [''Random Forest'', ''Decision Tree'', ''SVM'', ''Logistic Regression'', ''AdaBoost'']"

text \<open>The domain bounds that the specification gives for the eight input values.\<close>

definition spec_input_in_range :: "real list \<Rightarrow> bool" where
  "spec_input_in_range x =
     (case x of
        [pregnancies, glucose, blood_pressure, skin_thickness, insulin, bmi, pedigree, age] \<Rightarrow>
          0 \<le> pregnancies \<and> pregnancies \<le> 20 \<and> 0 \<le> glucose \<and> glucose \<le> 300 \<and>
          0 \<le> blood_pressure \<and> blood_pressure \<le> 200 \<and>
          0 \<le> skin_thickness \<and> skin_thickness \<le> 100 \<and>
          0 \<le> insulin \<and> insulin \<le> 900 \<and> 0 \<le> bmi \<and> bmi \<le> 70 \<and>
          0 \<le> pedigree \<and> pedigree \<le> 3 \<and> 0 \<le> age \<and> age \<le> 120
      | _ \<Rightarrow> False)"

subsection \<open>Further concrete inputs\<close>

text \<open>Runs whose download fails, a bank with a sixth model for which the chain has no branch,
  a scaler that changes nothing, and a file system that holds a persisted model.\<close>

definition demo_env_offline :: env where
  "demo_env_offline = demo_env\<lparr>read_csv := Inl URLError\<rparr>"

definition demo_env_timeout :: env where
  "demo_env_timeout = demo_env\<lparr>read_csv := Inl (OtherError ''TimeoutError'')\<rparr>"

definition demo_bank_extended :: "(string \<times> estimator) list" where
  "demo_bank_extended = models @ [(''Gradient Boosting'', (DecisionTreeClassifier, []))]"

definition demo_scaler :: scaler_state where
  "demo_scaler = \<lparr>scaler_mean = [0, 0, 0, 0, 0, 0, 0, 0], scaler_scale = [1, 1, 1, 1, 1, 1, 1, 1]\<rparr>"


section \<open>Properties\<close>

subsection \<open>Data preparation\<close>

lemma dropna_replace_zeros:
  "c \<in> set cols_with_zeros \<Longrightarrow>
   dropna (series (replace_zeros df) c) = filter (\<lambda>v. v \<noteq> 0) (dropna (series df c))"
proof (induction df)
  case Nil
  then show ?case by (simp add: series_def replace_zeros_def)
next
  case (Cons r df)
  then have IH: "dropna (series (replace_zeros df) c) = filter (\<lambda>v. v \<noteq> 0) (dropna (series df c))"
    by simp
  show ?case
  proof (cases "r c")
    case None
    with Cons.prems IH show ?thesis
      by (simp add: series_def replace_zeros_def replace_zero_cell_def)
  next
    case (Some v)
    with Cons.prems IH show ?thesis
      by (simp add: series_def replace_zeros_def replace_zero_cell_def)
  qed
qed

lemma clean_nth:
  "i < length raw \<Longrightarrow>
   (clean raw ! i) c =
     fillna_cell (df_median (replace_zeros raw) c)
       (if c \<in> set cols_with_zeros then replace_zero_cell ((raw ! i) c) else (raw ! i) c)"
  by (simp add: clean_def fillna_def replace_zeros_def Let_def)

lemma length_clean: "length (clean raw) = length raw"
  by (simp add: clean_def fillna_def replace_zeros_def Let_def)

text \<open>
  Claim C2. When the download succeeds, in each of the five columns Glucose,
  BloodPressure, SkinThickness, Insulin and BMI, a cell that is 0 (or missing) becomes the
  median of the column's cells that are neither missing nor 0, and every other cell is
  kept. So, when that median exists and is not 0, no cell of these columns is 0 or missing
  in the prepared table.
\<close>

theorem data_preparation_imputes:
  assumes "read_csv e = Inr raw"
      and "c \<in> set cols_with_zeros"
      and "median (filter (\<lambda>v. v \<noteq> 0) (dropna (series raw c))) = Some m"
      and "m \<noteq> 0"
      and "i < length raw"
  shows "\<exists>data. load_data e = Inr (Some data, []) \<and> length data = length raw \<and>
           (data ! i) c =
              (if (raw ! i) c = Some 0 \<or> (raw ! i) c = None then Some m else (raw ! i) c) \<and>
           (data ! i) c \<noteq> Some 0 \<and> (data ! i) c \<noteq> None"
proof -
  have ld: "load_data e = Inr (Some (clean raw), [])"
    using assms(1) by (simp add: load_data_def)
  have med: "df_median (replace_zeros raw) c = Some m"
    using assms(2,3) by (simp add: df_median_def dropna_replace_zeros)
  have val: "(clean raw ! i) c =
      (if (raw ! i) c = Some 0 \<or> (raw ! i) c = None then Some m else (raw ! i) c)"
    using assms(2,5) med
    by (auto simp: clean_nth fillna_cell_def replace_zero_cell_def split: option.splits)
  have nz: "(clean raw ! i) c \<noteq> Some 0 \<and> (clean raw ! i) c \<noteq> None"
    using val assms(4) by (cases "(raw ! i) c") auto
  show ?thesis using ld val nz length_clean by blast
qed

theorem data_preparation_imputes_witness:
  "read_csv demo_env = Inr demo_table \<and> Glucose \<in> set cols_with_zeros \<and>
   median (filter (\<lambda>v. v \<noteq> 0) (dropna (series demo_table Glucose))) = Some 105 \<and>
   (105 :: real) \<noteq> 0 \<and> 0 < length demo_table \<and> (demo_table ! 0) Glucose = Some 0 \<and>
   (\<exists>data. load_data demo_env = Inr (Some data, []) \<and> length data = length demo_table \<and>
      (data ! 0) Glucose = Some 105 \<and>
      (data ! 0) Glucose \<noteq> Some 0 \<and> (data ! 0) Glucose \<noteq> None)"
proof -
  have h1: "read_csv demo_env = Inr demo_table" by (simp add: demo_env_def)
  have h2: "Glucose \<in> set cols_with_zeros" by (simp add: cols_with_zeros_def)
  have h3: "median (filter (\<lambda>v. v \<noteq> 0) (dropna (series demo_table Glucose))) = Some 105"
    by (simp add: median_def series_def demo_table_def row_of_def)
  have h4: "(105 :: real) \<noteq> 0" by simp
  have h5: "0 < length demo_table" by (simp add: demo_table_def)
  have h6: "(demo_table ! 0) Glucose = Some 0" by (simp add: demo_table_def row_of_def)
  show ?thesis
    using data_preparation_imputes [OF h1 h2 h3 h4 h5] h1 h2 h3 h5 h6 by simp
qed

subsection \<open>Selection of the best model\<close>

lemma max_loop_split:
  "max_loop key b xs = r \<Longrightarrow>
   \<exists>pre post. b # xs = pre @ r # post \<and>
      (\<forall>x \<in> set pre. key x < key r) \<and> (\<forall>x \<in> set post. key x \<le> key r)"
proof (induction xs arbitrary: b)
  case Nil
  then have "[b] = [] @ r # []" by simp
  then show ?case by fastforce
next
  case (Cons x xs)
  show ?case
  proof (cases "key x > key b")
    case True
    with Cons.prems have "max_loop key x xs = r" by simp
    from Cons.IH [OF this] obtain pre post where
      sp: "x # xs = pre @ r # post"
      and lt: "\<forall>y \<in> set pre. key y < key r"
      and le: "\<forall>y \<in> set post. key y \<le> key r"
      by blast
    have "x \<in> set (pre @ r # post)" using sp by (metis list.set_intros(1))
    then have "x \<in> set pre \<or> x = r \<or> x \<in> set post" by auto
    then have "key x \<le> key r" using lt le by (auto simp: less_imp_le)
    with True have "key b < key r" by simp
    with lt have lt': "\<forall>y \<in> set (b # pre). key y < key r" by simp
    from sp have "b # x # xs = (b # pre) @ r # post" by simp
    with lt' le show ?thesis by blast
  next
    case False
    with Cons.prems have "max_loop key b xs = r" by simp
    from Cons.IH [OF this] obtain pre post where
      sp: "b # xs = pre @ r # post"
      and lt: "\<forall>y \<in> set pre. key y < key r"
      and le: "\<forall>y \<in> set post. key y \<le> key r"
      by blast
    show ?thesis
    proof (cases pre)
      case Nil
      with sp have b: "b = r" and post: "xs = post" by simp_all
      have "b # x # xs = [] @ r # (x # post)" using b post by simp
      moreover have "\<forall>y \<in> set (x # post). key y \<le> key r"
        using le False b by auto
      ultimately show ?thesis by (metis empty_iff list.set(1))
    next
      case (Cons a pre')
      with sp have a: "a = b" and xs: "xs = pre' @ r # post" by simp_all
      from lt Cons a have "key b < key r" by simp
      with False have "key x < key r" by simp
      with lt Cons a have lt': "\<forall>y \<in> set (b # x # pre'). key y < key r" by simp
      from xs have "b # x # xs = (b # x # pre') @ r # post" by simp
      with lt' le show ?thesis by blast
    qed
  qed
qed

lemma dict_set_fresh: "k \<notin> set (map fst d) \<Longrightarrow> dict_set d k v = d @ [(k, v)]"
  by (induction d) auto

lemma training_loop_keys:
  "training_loop e p ms acc = Inr results \<Longrightarrow> distinct (map fst acc @ map fst ms) \<Longrightarrow>
   map fst results = map fst acc @ map fst ms"
proof (induction ms arbitrary: acc)
  case Nil
  then show ?case by simp
next
  case (Cons nm ms)
  obtain name model where nm: "nm = (name, model)" by (cases nm)
  from Cons.prems(1) nm obtain m where
    ev: "evaluate e p model = Inr m"
    and rest: "training_loop e p ms (dict_set acc name m) = Inr results"
    by (auto split: sum.splits)
  from Cons.prems(2) nm have fresh: "name \<notin> set (map fst acc)" by auto
  then have ds: "dict_set acc name m = acc @ [(name, m)]" by (rule dict_set_fresh)
  have "distinct (map fst (dict_set acc name m) @ map fst ms)"
    using Cons.prems(2) nm ds by auto
  from Cons.IH [OF rest this] ds nm show ?case by simp
qed

lemma distinct_models: "distinct (map fst models)"
  by (simp add: models_def)

lemma f1_of_entry:
  "distinct (map fst results) \<Longrightarrow> (n, m) \<in> set results \<Longrightarrow> f1_of results n = F1_Score m"
  by (simp add: f1_of_def)

lemma demo_training_loop:
  "training_loop demo_env demo_prepared models [] = Inr demo_results"
  by (simp add: models_def evaluate_def demo_env_def demo_prepared_def demo_fit_def predict_def
     demo_accuracy_def demo_precision_def demo_recall_def demo_f1_def count_pairs_def ratio_def
     demo_results_def)

text \<open>
  Claim C3. For the results of the training loop over the Model Bank, the selector returns
  a name of the bank whose recorded F1 is at least the F1 recorded for every model, and
  every model that comes before it in the bank's order has a strictly smaller F1: among
  the models of maximal F1, the first in iteration order is returned.
\<close>

theorem best_model_selector:
  assumes "training_loop e p models [] = Inr results"
  shows "\<exists>name pre post best_metrics.
           best_model_name results = Inr name \<and>
           dict_get results name = Inr best_metrics \<and>
           (\<forall>(n, m) \<in> set results. F1_Score m \<le> F1_Score best_metrics) \<and>
           map fst models = pre @ name # post \<and>
           (\<forall>(n, m) \<in> set results. n \<in> set pre \<longrightarrow> F1_Score m < F1_Score best_metrics)"
proof -
  have keys: "map fst results = map fst models"
    using training_loop_keys [OF assms] distinct_models by simp
  then have dist: "distinct (map fst results)" using distinct_models by simp
  from keys obtain k ks where kks: "map fst results = k # ks"
    by (cases "map fst results") (auto simp: models_def)
  define name where "name = max_loop (f1_of results) k ks"
  have bm: "best_model_name results = Inr name"
    by (simp add: best_model_name_def py_max_def kks name_def)
  from max_loop_split [OF name_def [symmetric]] obtain pre post where
    sp: "k # ks = pre @ name # post"
    and lt: "\<forall>x \<in> set pre. f1_of results x < f1_of results name"
    and le: "\<forall>x \<in> set post. f1_of results x \<le> f1_of results name"
    by blast
  have "name \<in> set (map fst results)" using sp kks by simp
  then obtain bmx where bmx: "(name, bmx) \<in> set results" by auto
  with dist have dg: "dict_get results name = Inr bmx"
    by (simp add: dict_get_def)
  have fb: "f1_of results name = F1_Score bmx" using f1_of_entry [OF dist bmx] .
  have all_le: "\<forall>(n, m) \<in> set results. F1_Score m \<le> F1_Score bmx"
  proof (clarify)
    fix n m assume nm: "(n, m) \<in> set results"
    then have "n \<in> set (map fst results)" by force
    then have "n \<in> set pre \<or> n = name \<or> n \<in> set post" using sp kks by auto
    then have "f1_of results n \<le> f1_of results name" using lt le by fastforce
    then show "F1_Score m \<le> F1_Score bmx" using f1_of_entry [OF dist nm] fb by simp
  qed
  have pre_lt: "\<forall>(n, m) \<in> set results. n \<in> set pre \<longrightarrow> F1_Score m < F1_Score bmx"
  proof (clarify)
    fix n m assume nm: "(n, m) \<in> set results" and "n \<in> set pre"
    then have "f1_of results n < f1_of results name" using lt by simp
    then show "F1_Score m < F1_Score bmx" using f1_of_entry [OF dist nm] fb by simp
  qed
  from sp kks keys have "map fst models = pre @ name # post" by simp
  with bm dg all_le pre_lt show ?thesis by blast
qed

theorem best_model_selector_witness:
  "training_loop demo_env demo_prepared models [] = Inr demo_results \<and>
   best_model_name demo_results = Inr ''Decision Tree'' \<and>
   (\<exists>name pre post best_metrics.
       best_model_name demo_results = Inr name \<and>
       dict_get demo_results name = Inr best_metrics \<and>
       (\<forall>(n, m) \<in> set demo_results. F1_Score m \<le> F1_Score best_metrics) \<and>
       map fst models = pre @ name # post \<and>
       (\<forall>(n, m) \<in> set demo_results. n \<in> set pre \<longrightarrow> F1_Score m < F1_Score best_metrics))"
proof -
  have h: "training_loop demo_env demo_prepared models [] = Inr demo_results"
    by (rule demo_training_loop)
  have b: "best_model_name demo_results = Inr ''Decision Tree''"
    by (simp add: best_model_name_def py_max_def demo_results_def f1_of_def)
  from best_model_selector [OF h] h b show ?thesis by blast
qed

subsection \<open>Scaling and the split\<close>

text \<open>The script passes \<^verbatim>\<open>test_size=0.2\<close>; the number of test rows is the ceiling of a
  fifth of the rows.\<close>

lemma n_test_fifth: "nat \<lceil>real n / 5\<rceil> = (n + 4) div 5"
  by linarith

lemma shuffle_split_indices_fifth:
  "shuffle_split_indices perm n (1 / 5) seed =
     (if n \<le> (n + 4) div 5 then Inl ValueError
      else Inr (take (n - (n + 4) div 5) (drop ((n + 4) div 5) (perm seed n)),
                take ((n + 4) div 5) (perm seed n)))"
  by (simp add: shuffle_split_indices_def Let_def n_test_fifth)



lemma length_to_numeric_rows: "to_numeric_rows rs = Inr X \<Longrightarrow> length X = length rs"
  by (induction rs arbitrary: X) (auto split: sum.splits)

lemma length_to_numeric: "to_numeric vs = Inr ws \<Longrightarrow> length ws = length vs"
proof (induction vs arbitrary: ws)
  case Nil
  then show ?case by simp
next
  case (Cons v vs)
  then show ?case by (cases v) (auto split: sum.splits)
qed

lemma length_features: "features data = Inr X \<Longrightarrow> length X = length data"
  by (auto simp: features_def drop_outcome_def dest: length_to_numeric_rows)

lemma length_labels: "labels data = Inr y \<Longrightarrow> length y = length data"
  by (auto simp: labels_def series_def dest: length_to_numeric)

lemma fit_transform_Inr:
  "fit_transform X = Inr (sc, Xs) \<Longrightarrow> scaler_fit X = Inr sc \<and> Xs = map (scale_row sc) X"
  by (auto simp: fit_transform_def scaler_transform_def split: sum.splits if_splits)

lemma safe_indexing_Inr:
  "safe_indexing xs idx = Inr ys \<Longrightarrow> ys = map (\<lambda>i. xs ! i) idx \<and> (\<forall>i \<in> set idx. i < length xs)"
  by (auto simp: safe_indexing_def list_ex_iff split: if_splits)

text \<open>Unfolding of lines 63 to 71 on success.\<close>

lemma scale_and_split_Inr:
  assumes "scale_and_split e data = Inr p"
  shows "\<exists>X y train test.
           features data = Inr X \<and> labels data = Inr y \<and>
           scaler_fit X = Inr (scaler p) \<and>
           shuffle_split_indices (permutation e) (length data) 0.2 42 = Inr (train, test) \<and>
           (\<forall>i \<in> set train \<union> set test. i < length data) \<and>
           X_train p = map (\<lambda>i. scale_row (scaler p) (X ! i)) train \<and>
           X_test p = map (\<lambda>i. scale_row (scaler p) (X ! i)) test \<and>
           y_train p = map (\<lambda>i. y ! i) train \<and>
           y_test p = map (\<lambda>i. y ! i) test"
proof -
  from assms obtain X y sc Xs Xtr Xte ytr yte where
    f: "features data = Inr X" and l: "labels data = Inr y"
    and ft: "fit_transform X = Inr (sc, Xs)"
    and tts: "train_test_split (permutation e) Xs y 0.2 42 = Inr (Xtr, Xte, ytr, yte)"
    and p: "p = \<lparr>scaler = sc, X_train = Xtr, X_test = Xte, y_train = ytr, y_test = yte\<rparr>"
    by (auto simp: scale_and_split_def split: sum.splits prod.splits)
  from fit_transform_Inr [OF ft] have sf: "scaler_fit X = Inr sc" and Xs: "Xs = map (scale_row sc) X"
    by simp_all
  have lX: "length X = length data" using f by (rule length_features)
  have lXs: "length Xs = length data" using Xs lX by simp
  from tts obtain train test where
    ssi: "shuffle_split_indices (permutation e) (length Xs) 0.2 42 = Inr (train, test)"
    and s1: "safe_indexing Xs train = Inr Xtr" and s2: "safe_indexing Xs test = Inr Xte"
    and s3: "safe_indexing y train = Inr ytr" and s4: "safe_indexing y test = Inr yte"
    by (auto simp: train_test_split_def split: sum.splits prod.splits if_splits)
  from safe_indexing_Inr [OF s1] safe_indexing_Inr [OF s2] lXs
  have bnd: "\<forall>i \<in> set train \<union> set test. i < length data" by auto
  have "Xtr = map (\<lambda>i. scale_row sc (X ! i)) train"
    using safe_indexing_Inr [OF s1] Xs lX lXs by auto
  moreover have "Xte = map (\<lambda>i. scale_row sc (X ! i)) test"
    using safe_indexing_Inr [OF s2] Xs lX lXs by auto
  moreover have "ytr = map (\<lambda>i. y ! i) train" using safe_indexing_Inr [OF s3] by simp
  moreover have "yte = map (\<lambda>i. y ! i) test" using safe_indexing_Inr [OF s4] by simp
  ultimately show ?thesis using f l sf ssi bnd p lXs by auto
qed












subsection \<open>The script as a whole\<close>

text \<open>A run that reaches the end went through every step.\<close>

lemma script_Completed:
  assumes "status (script e fs) = Completed"
  shows "\<exists>raw p results name best_metrics gs.
           read_csv e = Inr raw \<and>
           scale_and_split e (clean raw) = Inr p \<and>
           training_loop e p models [] = Inr results \<and>
           best_model_name results = Inr name \<and>
           dict_get results name = Inr best_metrics \<and>
           tuning e models name p = Inr gs \<and>
           files (script e fs) = dump (best_estimator gs) ''diabetes_model.pkl'' fs \<and>
           (button e ''Predict Diabetes'' \<longrightarrow>
              (\<exists>msg. predict_diabetes (scaler p) (files (script e fs)) (input_data e) = Inr msg \<and>
                 shown (script e fs) \<noteq> [] \<and> last (shown (script e fs)) = msg))"
proof (cases "read_csv e")
  case (Inl err)
  with assms show ?thesis
    by (cases err) (simp_all add: script_def load_data_def)
next
  case (Inr raw)
  then have ld: "load_data e = Inr (Some (clean raw), [])" by (simp add: load_data_def)
  from assms ld obtain p where p: "scale_and_split e (clean raw) = Inr p"
    by (cases "scale_and_split e (clean raw)") (simp_all add: script_def Let_def)
  from assms ld p obtain results where r: "training_loop e p models [] = Inr results"
    by (cases "training_loop e p models []") (simp_all add: script_def Let_def)
  from assms ld p r obtain name where n: "best_model_name results = Inr name"
    by (cases "best_model_name results") (simp_all add: script_def Let_def)
  from assms ld p r n obtain bm where bm: "dict_get results name = Inr bm"
    by (cases "dict_get results name") (simp_all add: script_def Let_def)
  from assms ld p r n bm obtain gs where gs: "tuning e models name p = Inr gs"
    by (cases "tuning e models name p") (simp_all add: script_def Let_def)
  let ?fs = "dump (best_estimator gs) ''diabetes_model.pkl'' fs"
  have f: "files (script e fs) = ?fs"
    using ld p r n bm gs by (simp add: script_def Let_def split: sum.splits)
  have pr: "\<exists>msg. predict_diabetes (scaler p) (files (script e fs)) (input_data e) = Inr msg \<and>
                 shown (script e fs) \<noteq> [] \<and> last (shown (script e fs)) = msg"
    if b: "button e ''Predict Diabetes''"
  proof (cases "predict_diabetes (scaler p) ?fs (input_data e)")
    case (Inl err)
    with assms ld p r n bm gs b show ?thesis by (simp add: script_def Let_def)
  next
    case (Inr msg)
    with ld p r n bm gs b f show ?thesis by (simp add: script_def Let_def)
  qed
  from Inr p r n bm gs f pr show ?thesis by blast
qed


subsection \<open>The scaler state written out\<close>

lemma to_numeric_rows_widths:
  "to_numeric_rows rs = Inr X \<Longrightarrow> \<forall>r \<in> set rs. length r = d \<Longrightarrow> \<forall>x \<in> set X. length x = d"
proof (induction rs arbitrary: X)
  case Nil
  then show ?case by simp
next
  case (Cons r rs)
  from Cons.prems(1) obtain x xs where
    x: "to_numeric r = Inr x" and xs: "to_numeric_rows rs = Inr xs" and X: "X = x # xs"
    by (auto split: sum.splits)
  from length_to_numeric [OF x] Cons.prems(2) have "length x = d" by simp
  moreover from Cons.IH [OF xs] Cons.prems(2) have "\<forall>x \<in> set xs. length x = d" by simp
  ultimately show ?case using X by simp
qed

lemma features_widths: "features data = Inr X \<Longrightarrow> \<forall>x \<in> set X. length x = 8"
  unfolding features_def
  by (erule to_numeric_rows_widths) (simp add: drop_outcome_def feature_cols_def)

text \<open>The fitted state, written out: per feature the mean of the column and the square root
  of its population variance, a zero deviation being replaced by 1.\<close>

lemma scaler_fit_columns:
  assumes "scaler_fit X = Inr sc" and "\<forall>x \<in> set X. length x = d"
  shows "X \<noteq> []" and "length (scaler_mean sc) = d" and "length (scaler_scale sc) = d"
    and "\<forall>j<d. scaler_mean sc ! j = sum_list (map (\<lambda>r. r ! j) X) / real (length X)"
    and "\<forall>j<d. scaler_scale sc ! j =
           (let col = map (\<lambda>r. r ! j) X;
                m = sum_list col / real (length X);
                s = sqrt (sum_list (map (\<lambda>x. (x - m)\<^sup>2) col) / real (length X))
            in if s = 0 then 1 else s)"
proof -
  from assms(1) obtain r rs where X: "X = r # rs" by (cases X) (auto simp: scaler_fit_def)
  with assms(2) have lr: "length r = d" by simp
  from assms(1) X lr have sc: "sc = \<lparr>scaler_mean = map mean (map (matrix_column X) [0..<d]),
      scaler_scale = map (\<lambda>c. handle_zeros_in_scale (sqrt (var c))) (map (matrix_column X) [0..<d])\<rparr>"
    by (auto simp: scaler_fit_def Let_def)
  show "X \<noteq> []" using X by simp
  show "length (scaler_mean sc) = d" by (simp add: sc)
  show "length (scaler_scale sc) = d" by (simp add: sc)
  show "\<forall>j<d. scaler_mean sc ! j = sum_list (map (\<lambda>r. r ! j) X) / real (length X)"
    by (simp add: sc mean_def matrix_column_def)
  show "\<forall>j<d. scaler_scale sc ! j =
           (let col = map (\<lambda>r. r ! j) X;
                m = sum_list col / real (length X);
                s = sqrt (sum_list (map (\<lambda>x. (x - m)\<^sup>2) col) / real (length X))
            in if s = 0 then 1 else s)"
    by (simp add: sc mean_def var_def matrix_column_def handle_zeros_in_scale_def Let_def)
qed

lemma scale_row_nth:
  assumes "length r = d" and "length (scaler_mean sc) = d" and "length (scaler_scale sc) = d"
  shows "length (scale_row sc r) = d"
    and "\<forall>j<d. scale_row sc r ! j = (r ! j - scaler_mean sc ! j) / scaler_scale sc ! j"
  using assms by (simp_all add: scale_row_def)

subsection \<open>The complete run, step by step\<close>

lemma upt8: "[0..<8] = [0, 1, 2, 3, 4, 5, 6, 7]"
  by (simp add: upt_rec)

lemma cohort_features: "features (clean cohort_table) = Inr cohort_X"
  by (simp add: features_def drop_outcome_def feature_cols_def clean_def cohort_table_def
      replace_zeros_def fillna_def Let_def fillna_cell_def replace_zero_cell_def row_of_def
      cols_with_zeros_def df_median_def series_def median_def cohort_X_def)

lemma cohort_labels: "labels (clean cohort_table) = Inr [1, 1, 0, 1, 1, 1, 0, 1]"
  by (simp add: labels_def clean_def cohort_table_def
      replace_zeros_def fillna_def Let_def fillna_cell_def replace_zero_cell_def row_of_def
      cols_with_zeros_def df_median_def series_def median_def)

lemma length_cohort: "length (clean cohort_table) = 8"
  by (simp add: length_clean cohort_table_def)

lemma cohort_split_indices:
  "shuffle_split_indices (permutation (cohort_env entries)) 8 0.2 42
     = Inr ([5, 4, 3, 2, 1, 0], [7, 6])"
  by (simp add: shuffle_split_indices_fifth cohort_env_def demo_env_def upt8)

lemma cohort_load_data:
  "load_data (cohort_env entries) = Inr (Some (clean cohort_table), [])"
  by (simp add: load_data_def cohort_env_def)

lemma cohort_scale_and_split:
  "\<exists>p. scale_and_split (cohort_env entries) (clean cohort_table) = Inr p"
  by (simp add: scale_and_split_def cohort_features cohort_labels fit_transform_def
      scaler_fit_def scaler_transform_def train_test_split_def shuffle_split_indices_fifth
      safe_indexing_def cohort_env_def demo_env_def upt8 Let_def cohort_X_def)

lemma cohort_scaler_first:
  assumes "scaler_fit cohort_X = Inr sc"
  shows "scaler_mean sc ! 0 = 3" and "scaler_scale sc ! 0 = 2"
proof -
  have w: "\<forall>x \<in> set cohort_X. length x = 8" by (simp add: cohort_X_def)
  from scaler_fit_columns(4) [OF assms w, rule_format, of 0]
  show "scaler_mean sc ! 0 = 3" by (simp add: cohort_X_def)
  from scaler_fit_columns(5) [OF assms w, rule_format, of 0]
  have "scaler_scale sc ! 0 =
           (let col = map (\<lambda>r. r ! 0) cohort_X;
                m = sum_list col / real (length cohort_X);
                s = sqrt (sum_list (map (\<lambda>x. (x - m)\<^sup>2) col) / real (length cohort_X))
            in if s = 0 then 1 else s)" by simp
  then show "scaler_scale sc ! 0 = 2" by (simp add: cohort_X_def Let_def)
qed

lemma cohort_split_facts:
  assumes "scale_and_split (cohort_env entries) (clean cohort_table) = Inr p"
  shows "scaler_fit cohort_X = Inr (scaler p)"
    and "length (scaler_mean (scaler p)) = 8"
    and "length (scaler_scale (scaler p)) = 8"
    and "X_train p = map (\<lambda>i. scale_row (scaler p) (cohort_X ! i)) [5, 4, 3, 2, 1, 0]"
    and "X_test p = map (\<lambda>i. scale_row (scaler p) (cohort_X ! i)) [7, 6]"
    and "y_train p = [1, 1, 1, 0, 1, 1]"
    and "y_test p = [1, 0]"
proof -
  from scale_and_split_Inr [OF assms] obtain X y train test where
    f: "features (clean cohort_table) = Inr X" and l: "labels (clean cohort_table) = Inr y"
    and sf: "scaler_fit X = Inr (scaler p)"
    and ssi: "shuffle_split_indices (permutation (cohort_env entries))
                (length (clean cohort_table)) 0.2 42 = Inr (train, test)"
    and Xtr: "X_train p = map (\<lambda>i. scale_row (scaler p) (X ! i)) train"
    and Xte: "X_test p = map (\<lambda>i. scale_row (scaler p) (X ! i)) test"
    and ytr: "y_train p = map (\<lambda>i. y ! i) train"
    and yte: "y_test p = map (\<lambda>i. y ! i) test"
    by blast
  from f cohort_features have X: "X = cohort_X" by simp
  from l cohort_labels have y: "y = [1, 1, 0, 1, 1, 1, 0, 1]" by simp
  from ssi cohort_split_indices [of entries] length_cohort
  have tt: "train = [5, 4, 3, 2, 1, 0]" "test = [7, 6]" by simp_all
  have w: "\<forall>x \<in> set cohort_X. length x = 8" by (simp add: cohort_X_def)
  show sfc: "scaler_fit cohort_X = Inr (scaler p)" using sf X by simp
  show "length (scaler_mean (scaler p)) = 8" by (rule scaler_fit_columns(2) [OF sfc w])
  show "length (scaler_scale (scaler p)) = 8" by (rule scaler_fit_columns(3) [OF sfc w])
  show "X_train p = map (\<lambda>i. scale_row (scaler p) (cohort_X ! i)) [5, 4, 3, 2, 1, 0]"
    using Xtr X tt by simp
  show "X_test p = map (\<lambda>i. scale_row (scaler p) (cohort_X ! i)) [7, 6]"
    using Xte X tt by simp
  show "y_train p = [1, 1, 1, 0, 1, 1]" using ytr y tt by simp
  show "y_test p = [1, 0]" using yte y tt by simp
qed

lemma cohort_training_loop:
  assumes "scale_and_split (cohort_env entries) (clean cohort_table) = Inr p"
  shows "training_loop (cohort_env entries) p models [] = Inr demo_results"
  using cohort_split_facts(5,7) [OF assms]
  by (simp add: models_def evaluate_def cohort_env_def demo_env_def demo_fit_def predict_def
     demo_accuracy_def demo_precision_def demo_recall_def demo_f1_def count_pairs_def ratio_def
     demo_results_def)

lemma demo_best: "best_model_name demo_results = Inr ''Decision Tree''"
  by (simp add: best_model_name_def py_max_def demo_results_def f1_of_def)

lemma demo_get:
  "dict_get demo_results ''Decision Tree''
     = Inr \<lparr>Accuracy = 1 / 2, Precision = 1 / 2, Recall = 1, F1_Score = 2 / 3\<rparr>"
  by (simp add: dict_get_def demo_results_def)

lemma demo_tuning:
  assumes "fit e = demo_fit" and "cv_mean_score e = demo_cv_mean_score"
      and "length (X_train p) = length (y_train p)" and "cv_splittable 5 (y_train p)"
  shows "tuning e models ''Decision Tree'' p =
     Inr \<lparr>best_params = [(''max_depth'', PNone), (''min_samples_split'', PInt 5)],
          best_estimator = demo_classifier, best_score = 0.75\<rparr>"
  using assms
  by (simp add: tuning_def dict_get_def models_def param_grid_def grid_search_fit_def
      ParameterGrid_def py_max_def candidate_score_def set_params_def
      demo_cv_mean_score_def demo_fit_def demo_classifier_def)

lemma cohort_tuning:
  assumes "scale_and_split (cohort_env entries) (clean cohort_table) = Inr p"
  shows "tuning (cohort_env entries) models ''Decision Tree'' p =
     Inr \<lparr>best_params = [(''max_depth'', PNone), (''min_samples_split'', PInt 5)],
          best_estimator = demo_classifier, best_score = 0.75\<rparr>"
proof -
  note f = cohort_split_facts [OF assms]
  have l: "length (X_train p) = length (y_train p)" by (simp add: f(4,6))
  have c: "cv_splittable 5 (y_train p)" by (simp add: f(6) cv_splittable_def)
  show ?thesis
    by (rule demo_tuning [OF _ _ l c]) (simp_all add: cohort_env_def demo_env_def)
qed

lemma predict_diabetes_Inr:
  assumes "predict_diabetes sc fs [x] = Inr msg"
  shows "\<exists>m. fs ''diabetes_model.pkl'' = Some (Pickle m) \<and> msg = verdict (m (scale_row sc x)) \<and>
             length x = length (scaler_mean sc)"
proof -
  from assms have len: "length x = length (scaler_mean sc)"
    by (auto simp: predict_diabetes_def scaler_transform_def split: if_splits)
  then have tr: "scaler_transform sc [x] = Inr [scale_row sc x]"
    by (simp add: scaler_transform_def)
  from assms tr obtain m where m: "load fs ''diabetes_model.pkl'' = Inr m"
    by (cases "load fs ''diabetes_model.pkl''") (simp_all add: predict_diabetes_def)
  then have f: "fs ''diabetes_model.pkl'' = Some (Pickle m)"
    by (auto simp: load_def split: option.splits stored_file.splits)
  from assms tr m have "msg = verdict (m (scale_row sc x))"
    by (simp add: predict_diabetes_def predict_def)
  with f len show ?thesis by blast
qed

lemma predict_diabetes_readable:
  assumes "length x = length (scaler_mean sc)" and "fs ''diabetes_model.pkl'' = Some (Pickle m)"
  shows "predict_diabetes sc fs [x] = Inr (verdict (m (scale_row sc x)))"
  using assms by (simp add: predict_diabetes_def scaler_transform_def load_def predict_def)

lemma number_input_bounds:
  "lo \<le> d \<Longrightarrow> d \<le> hi \<Longrightarrow> lo \<le> number_input e label lo hi d \<and> number_input e label lo hi d \<le> hi"
  by (simp add: number_input_def split: option.splits)

lemma input_data_in_range: "\<exists>x. input_data e = [x] \<and> length x = 8 \<and> spec_input_in_range x"
proof -
  have "spec_input_in_range (hd (input_data e))"
    using number_input_bounds [of 0 1 20 e "''Pregnancies''"]
      number_input_bounds [of 0 100 300 e "''Glucose Level''"]
      number_input_bounds [of 0 70 200 e "''Blood Pressure''"]
      number_input_bounds [of 0 20 100 e "''Skin Thickness''"]
      number_input_bounds [of 0 80 900 e "''Insulin''"]
      number_input_bounds [of 0 25 70 e "''BMI''"]
      number_input_bounds [of 0 "0.5" 3 e "''Diabetes Pedigree Function''"]
      number_input_bounds [of 0 30 120 e "''Age''"]
    by (simp add: input_data_def spec_input_in_range_def Let_def)
  moreover have "input_data e = [hd (input_data e)]" "length (hd (input_data e)) = 8"
    by (simp_all add: input_data_def Let_def)
  ultimately show ?thesis by metis
qed

lemma cohort_script:
  "status (script (cohort_env entries) fs) = Completed \<and>
   last (shown (script (cohort_env entries) fs))
     = St_error ''The patient is likely to have diabetes.'' \<and>
   files (script (cohort_env entries) fs) = dump demo_classifier ''diabetes_model.pkl'' fs"
proof -
  let ?e = "cohort_env entries"
  from cohort_scale_and_split obtain p where
    p: "scale_and_split ?e (clean cohort_table) = Inr p" ..
  have b: "button ?e ''Predict Diabetes''" by (simp add: cohort_env_def demo_env_def)
  from input_data_in_range obtain x where x: "input_data ?e = [x]" and lx: "length x = 8"
    by blast
  have pd: "predict_diabetes (scaler p) (dump demo_classifier ''diabetes_model.pkl'' fs)
              (input_data ?e) = Inr (St_error ''The patient is likely to have diabetes.'')"
    unfolding x
    by (subst predict_diabetes_readable [where m = demo_classifier])
       (simp_all add: lx cohort_split_facts(2) [OF p] dump_def verdict_def demo_classifier_def)
  show ?thesis
    by (simp add: script_def cohort_load_data p cohort_training_loop [OF p] demo_best demo_get
        cohort_tuning [OF p] pd b Let_def)
qed

lemma demo_input: "input_data demo_env = [[1, 100, 70, 20, 80, 25, 0.5, 30]]"
  by (simp add: input_data_def number_input_def demo_env_def)


subsection \<open>What the scaler is fitted on\<close>

text \<open>
  Claim C1, as the script has it. The scaler state is fitted once, on the features of all
  prepared rows, before the split: for each of the eight features it holds the mean of the
  whole column and the square root of the column's population variance (1 where that is
  0). The train and the test part are rows of the array scaled with that state, every
  value being the prepared value minus the mean, divided by the deviation, and a
  prediction scales the user's input in the same way with the same state. The state is
  thus not learned from the train rows only: the rows that become the test part take part
  in the mean and the deviation.
\<close>

theorem scaler_fit_on_all_rows:
  assumes "read_csv e = Inr raw" and "scale_and_split e (clean raw) = Inr p"
  shows "\<exists>X train test.
           features (clean raw) = Inr X \<and> X \<noteq> [] \<and>
           shuffle_split_indices (permutation e) (length (clean raw)) 0.2 42 = Inr (train, test) \<and>
           length (scaler_mean (scaler p)) = 8 \<and> length (scaler_scale (scaler p)) = 8 \<and>
           (\<forall>j<8. scaler_mean (scaler p) ! j
                     = sum_list (map (\<lambda>r. r ! j) X) / real (length X)) \<and>
           (\<forall>j<8. scaler_scale (scaler p) ! j =
                   (let col = map (\<lambda>r. r ! j) X;
                        m = sum_list col / real (length X);
                        s = sqrt (sum_list (map (\<lambda>x. (x - m)\<^sup>2) col) / real (length X))
                    in if s = 0 then 1 else s)) \<and>
           length (X_train p) = length train \<and> length (X_test p) = length test \<and>
           (\<forall>i<length train. \<forall>j<8.
               X_train p ! i ! j
                 = (X ! (train ! i) ! j - scaler_mean (scaler p) ! j) / scaler_scale (scaler p) ! j) \<and>
           (\<forall>i<length test. \<forall>j<8.
               X_test p ! i ! j
                 = (X ! (test ! i) ! j - scaler_mean (scaler p) ! j) / scaler_scale (scaler p) ! j) \<and>
           (status (script e fs) = Completed \<and> button e ''Predict Diabetes'' \<longrightarrow>
              (\<exists>m x. files (script e fs) ''diabetes_model.pkl'' = Some (Pickle m) \<and>
                 input_data e = [x] \<and>
                 last (shown (script e fs))
                   = verdict (m (map (\<lambda>j. (x ! j - scaler_mean (scaler p) ! j)
                                            / scaler_scale (scaler p) ! j) [0..<8]))))"
proof -
  let ?sc = "scaler p"
  from scale_and_split_Inr [OF assms(2)] obtain X y train test where
    f: "features (clean raw) = Inr X" and sf: "scaler_fit X = Inr ?sc"
    and ssi: "shuffle_split_indices (permutation e) (length (clean raw)) 0.2 42 = Inr (train, test)"
    and bnd: "\<forall>i \<in> set train \<union> set test. i < length (clean raw)"
    and Xtr: "X_train p = map (\<lambda>i. scale_row ?sc (X ! i)) train"
    and Xte: "X_test p = map (\<lambda>i. scale_row ?sc (X ! i)) test"
    by blast
  have w: "\<forall>x \<in> set X. length x = 8" using f by (rule features_widths)
  have lX: "length X = length (clean raw)" using f by (rule length_features)
  note cols = scaler_fit_columns [OF sf w]
  have row: "scale_row ?sc (X ! i) ! j = (X ! i ! j - scaler_mean ?sc ! j) / scaler_scale ?sc ! j"
    if "i < length X" and "j < 8" for i j
  proof -
    from that(1) w have "length (X ! i) = 8" by simp
    from scale_row_nth(2) [OF this cols(2) cols(3)] that(2) show ?thesis by simp
  qed
  have tr: "\<forall>i<length train. \<forall>j<8.
               X_train p ! i ! j = (X ! (train ! i) ! j - scaler_mean ?sc ! j) / scaler_scale ?sc ! j"
  proof (intro allI impI)
    fix i j assume i: "i < length train" and j: "j < (8::nat)"
    from i bnd lX have "train ! i < length X" by simp
    from row [OF this j] i show "X_train p ! i ! j
        = (X ! (train ! i) ! j - scaler_mean ?sc ! j) / scaler_scale ?sc ! j"
      by (simp add: Xtr)
  qed
  have te: "\<forall>i<length test. \<forall>j<8.
               X_test p ! i ! j = (X ! (test ! i) ! j - scaler_mean ?sc ! j) / scaler_scale ?sc ! j"
  proof (intro allI impI)
    fix i j assume i: "i < length test" and j: "j < (8::nat)"
    from i bnd lX have "test ! i < length X" by simp
    from row [OF this j] i show "X_test p ! i ! j
        = (X ! (test ! i) ! j - scaler_mean ?sc ! j) / scaler_scale ?sc ! j"
      by (simp add: Xte)
  qed
  have pr: "\<exists>m x. files (script e fs) ''diabetes_model.pkl'' = Some (Pickle m) \<and>
                 input_data e = [x] \<and>
                 last (shown (script e fs))
                   = verdict (m (map (\<lambda>j. (x ! j - scaler_mean ?sc ! j) / scaler_scale ?sc ! j) [0..<8]))"
    if c: "status (script e fs) = Completed" and b: "button e ''Predict Diabetes''"
  proof -
    from script_Completed [OF c] b assms obtain msg where
      pd: "predict_diabetes ?sc (files (script e fs)) (input_data e) = Inr msg"
      and l: "last (shown (script e fs)) = msg"
      by auto
    from input_data_in_range obtain x where x: "input_data e = [x]" and lx: "length x = 8"
      by blast
    from predict_diabetes_Inr [OF pd [unfolded x]] obtain m where
      m: "files (script e fs) ''diabetes_model.pkl'' = Some (Pickle m)"
      and msg: "msg = verdict (m (scale_row ?sc x))" by blast
    have "scale_row ?sc x = map (\<lambda>j. (x ! j - scaler_mean ?sc ! j) / scaler_scale ?sc ! j) [0..<8]"
      using scale_row_nth [OF lx cols(2) cols(3)]
      by (intro nth_equalityI) simp_all
    with m msg l x show ?thesis by auto
  qed
  have lens: "length (X_train p) = length train" "length (X_test p) = length test"
    by (simp_all add: Xtr Xte)
  show ?thesis
    by (rule exI [of _ X], rule exI [of _ train], rule exI [of _ test])
       (intro conjI f cols(1) ssi cols(2) cols(3) cols(4) cols(5) lens tr te impI pr; simp)
qed

theorem scaler_fit_on_all_rows_witness:
  "read_csv (cohort_env no_entries) = Inr cohort_table \<and>
   scale_and_split (cohort_env no_entries) (clean cohort_table)
     = Inr (projr (scale_and_split (cohort_env no_entries) (clean cohort_table))) \<and>
   status (script (cohort_env no_entries) Map.empty) = Completed \<and>
   button (cohort_env no_entries) ''Predict Diabetes'' \<and>
   features (clean cohort_table) = Inr cohort_X \<and>
   shuffle_split_indices (permutation (cohort_env no_entries)) (length (clean cohort_table)) 0.2 42
     = Inr ([5, 4, 3, 2, 1, 0], [7, 6]) \<and>
   scaler_mean (scaler (projr (scale_and_split (cohort_env no_entries) (clean cohort_table)))) ! 0 = 3 \<and>
   scaler_scale (scaler (projr (scale_and_split (cohort_env no_entries) (clean cohort_table)))) ! 0 = 2 \<and>
   X_train (projr (scale_and_split (cohort_env no_entries) (clean cohort_table))) ! 0 ! 0 = - 1 \<and>
   X_train (projr (scale_and_split (cohort_env no_entries) (clean cohort_table))) ! 2 ! 0 = 1 \<and>
   X_test (projr (scale_and_split (cohort_env no_entries) (clean cohort_table))) ! 0 ! 0 = 1 \<and>
   input_data (cohort_env no_entries) = [[1, 100, 70, 20, 80, 25, 0.5, 30]] \<and>
   (\<exists>m. files (script (cohort_env no_entries) Map.empty) ''diabetes_model.pkl'' = Some (Pickle m) \<and>
      last (shown (script (cohort_env no_entries) Map.empty))
        = verdict (m (map (\<lambda>j. ([1, 100, 70, 20, 80, 25, 0.5, 30] ! j
              - scaler_mean (scaler (projr (scale_and_split (cohort_env no_entries)
                                              (clean cohort_table)))) ! j)
              / scaler_scale (scaler (projr (scale_and_split (cohort_env no_entries)
                                               (clean cohort_table)))) ! j) [0..<8])))"
proof -
  let ?e = "cohort_env no_entries"
  let ?p = "projr (scale_and_split ?e (clean cohort_table))"
  have h1: "read_csv ?e = Inr cohort_table" by (simp add: cohort_env_def)
  from cohort_scale_and_split [of no_entries]
  have h2: "scale_and_split ?e (clean cohort_table) = Inr ?p" by auto
  have c: "status (script ?e Map.empty) = Completed" using cohort_script by blast
  have b: "button ?e ''Predict Diabetes''" by (simp add: cohort_env_def demo_env_def)
  have inp: "input_data ?e = [[1, 100, 70, 20, 80, 25, 0.5, 30]]"
    by (simp add: input_data_def number_input_def cohort_env_def no_entries_def demo_env_def)
  have idx: "shuffle_split_indices (permutation ?e) (length (clean cohort_table)) 0.2 42
     = Inr ([5, 4, 3, 2, 1, 0], [7, 6])"
    using cohort_split_indices [of no_entries] length_cohort by simp
  from scaler_fit_on_all_rows [OF h1 h2, of Map.empty] obtain X train test where
    f: "features (clean cohort_table) = Inr X"
    and ssi: "shuffle_split_indices (permutation ?e) (length (clean cohort_table)) 0.2 42
                = Inr (train, test)"
    and mean: "\<forall>j<8. scaler_mean (scaler ?p) ! j
                     = sum_list (map (\<lambda>r. r ! j) X) / real (length X)"
    and scale: "\<forall>j<8. scaler_scale (scaler ?p) ! j =
                   (let col = map (\<lambda>r. r ! j) X;
                        m = sum_list col / real (length X);
                        s = sqrt (sum_list (map (\<lambda>x. (x - m)\<^sup>2) col) / real (length X))
                    in if s = 0 then 1 else s)"
    and tr: "\<forall>i<length train. \<forall>j<8.
               X_train ?p ! i ! j
                 = (X ! (train ! i) ! j - scaler_mean (scaler ?p) ! j) / scaler_scale (scaler ?p) ! j"
    and te: "\<forall>i<length test. \<forall>j<8.
               X_test ?p ! i ! j
                 = (X ! (test ! i) ! j - scaler_mean (scaler ?p) ! j) / scaler_scale (scaler ?p) ! j"
    and pr: "status (script ?e Map.empty) = Completed \<and> button ?e ''Predict Diabetes'' \<longrightarrow>
              (\<exists>m x. files (script ?e Map.empty) ''diabetes_model.pkl'' = Some (Pickle m) \<and>
                 input_data ?e = [x] \<and>
                 last (shown (script ?e Map.empty))
                   = verdict (m (map (\<lambda>j. (x ! j - scaler_mean (scaler ?p) ! j)
                                            / scaler_scale (scaler ?p) ! j) [0..<8])))"
    by blast
  from f cohort_features have X: "X = cohort_X" by simp
  from ssi idx have tt: "train = [5, 4, 3, 2, 1, 0]" "test = [7, 6]" by simp_all
  have m0: "scaler_mean (scaler ?p) ! 0 = 3"
    using mean [rule_format, of 0] by (simp add: X cohort_X_def)
  have s0: "scaler_scale (scaler ?p) ! 0 = 2"
    using scale [rule_format, of 0] by (simp add: X cohort_X_def Let_def)
  have t0: "X_train ?p ! 0 ! 0 = - 1"
    using tr [rule_format, of 0 0] by (simp add: tt X cohort_X_def m0 s0)
  have t2: "X_train ?p ! 2 ! 0 = 1"
    using tr [rule_format, of 2 0] by (simp add: tt X cohort_X_def m0 s0)
  have e0: "X_test ?p ! 0 ! 0 = 1"
    using te [rule_format, of 0 0] by (simp add: tt X cohort_X_def m0 s0)
  from pr c b inp have last: "\<exists>m. files (script ?e Map.empty) ''diabetes_model.pkl'' = Some (Pickle m) \<and>
      last (shown (script ?e Map.empty))
        = verdict (m (map (\<lambda>j. ([1, 100, 70, 20, 80, 25, 0.5, 30] ! j
              - scaler_mean (scaler ?p) ! j) / scaler_scale (scaler ?p) ! j) [0..<8]))"
    by auto
  show ?thesis
    by (intro conjI h1 h2 c b cohort_features idx m0 s0 t0 t2 e0 inp last)
qed

text \<open>The claim as stated fails on the eight patients: the state of the run is the fit on
  all eight rows, whose means differ from those of the six train rows.\<close>

theorem scaler_fit_train_only_counterexample:
  "features (clean cohort_table) = Inr cohort_X \<and>
   shuffle_split_indices (permutation (cohort_env no_entries)) (length (clean cohort_table)) 0.2 42
     = Inr ([5, 4, 3, 2, 1, 0], [7, 6]) \<and>
   map_sum id scaler (scale_and_split (cohort_env no_entries) (clean cohort_table))
     = scaler_fit cohort_X \<and>
   map_sum id scaler_mean (scaler_fit cohort_X)
     = Inr [3, 855 / 8, 75, 25, 375 / 4, 57 / 2, 23 / 32, 305 / 8] \<and>
   map_sum id (\<lambda>sc. scaler_scale sc ! 0) (scaler_fit cohort_X) = Inr 2 \<and>
   map_sum id scaler_mean (scaler_fit cohort_X_train_raw)
     = Inr [7 / 3, 655 / 6, 230 / 3, 80 / 3, 275 / 3, 89 / 3, 3 / 4, 245 / 6] \<and>
   map_sum id scaler (scale_and_split (cohort_env no_entries) (clean cohort_table))
     \<noteq> scaler_fit cohort_X_train_raw"
proof -
  from cohort_scale_and_split obtain p where
    p: "scale_and_split (cohort_env no_entries) (clean cohort_table) = Inr p" ..
  have a: "map_sum id scaler (scale_and_split (cohort_env no_entries) (clean cohort_table))
             = scaler_fit cohort_X"
    using cohort_split_facts(1) [OF p] p by simp
  have m1: "map_sum id scaler_mean (scaler_fit cohort_X)
     = Inr [3, 855 / 8, 75, 25, 375 / 4, 57 / 2, 23 / 32, 305 / 8]"
    by (simp add: scaler_fit_def cohort_X_def matrix_column_def mean_def upt_rec)
  have s1: "map_sum id (\<lambda>sc. scaler_scale sc ! 0) (scaler_fit cohort_X) = Inr 2"
    using cohort_scaler_first(2) [OF cohort_split_facts(1) [OF p]] cohort_split_facts(1) [OF p]
    by simp
  have m2: "map_sum id scaler_mean (scaler_fit cohort_X_train_raw)
     = Inr [7 / 3, 655 / 6, 230 / 3, 80 / 3, 275 / 3, 89 / 3, 3 / 4, 245 / 6]"
    by (simp add: scaler_fit_def cohort_X_train_raw_def cohort_X_def matrix_column_def mean_def
        upt_rec)
  have ne: "scaler_fit cohort_X \<noteq> scaler_fit cohort_X_train_raw"
  proof
    assume "scaler_fit cohort_X = scaler_fit cohort_X_train_raw"
    then have "map_sum id scaler_mean (scaler_fit cohort_X)
               = map_sum id scaler_mean (scaler_fit cohort_X_train_raw)" by simp
    with m1 m2 show False by simp
  qed
  have idx: "shuffle_split_indices (permutation (cohort_env no_entries))
               (length (clean cohort_table)) 0.2 42 = Inr ([5, 4, 3, 2, 1, 0], [7, 6])"
    using cohort_split_indices [of no_entries] length_cohort by simp
  from ne a have ne': "map_sum id scaler (scale_and_split (cohort_env no_entries) (clean cohort_table))
     \<noteq> scaler_fit cohort_X_train_raw" by simp
  show ?thesis by (intro conjI cohort_features idx a m1 s1 m2 ne')
qed

subsection \<open>Failure of the download\<close>

text \<open>
  Claim C7. When the download fails, the run stops at once. A \<^verbatim>\<open>URLError\<close> is caught: the
  message is shown, \<^verbatim>\<open>load_data\<close> returns \<^verbatim>\<open>None\<close> and the script stops; any other exception
  leaves the script uncaught. In both cases nothing else is shown and no file is written:
  the outcome depends on nothing but the error, so no later step has run.
\<close>

theorem data_unavailable_halts:
  assumes "read_csv e = Inl err"
  shows "script e fs =
           \<lparr>status = (if err = URLError then Stopped else Raised err),
            shown = (if err = URLError then [St_error ''Failed to load data.''] else []),
            files = fs\<rparr>"
  using assms by (cases err) (simp_all add: script_def load_data_def)

theorem data_unavailable_halts_witness:
  "read_csv demo_env_offline = Inl URLError \<and>
   script demo_env_offline Map.empty =
     \<lparr>status = Stopped, shown = [St_error ''Failed to load data.''], files = Map.empty\<rparr> \<and>
   read_csv demo_env_timeout = Inl (OtherError ''TimeoutError'') \<and>
   script demo_env_timeout Map.empty =
     \<lparr>status = Raised (OtherError ''TimeoutError''), shown = [], files = Map.empty\<rparr>"
proof -
  have h: "read_csv demo_env_offline = Inl URLError"
    by (simp add: demo_env_offline_def)
  have h': "read_csv demo_env_timeout = Inl (OtherError ''TimeoutError'')"
    by (simp add: demo_env_timeout_def)
  from data_unavailable_halts [OF h, of Map.empty] data_unavailable_halts [OF h', of Map.empty]
    h h' show ?thesis by simp
qed

subsection \<open>Prediction\<close>

text \<open>
  Claim C8. When the model file is missing or unreadable, the prediction raises (the
  exception of \<^verbatim>\<open>load\<close>, unless the input array already has the wrong width) and gives no
  verdict. Whenever a verdict is given, it is the answer of a model read from the file:
  there is no fallback model. The prediction returns a message or an exception only; it
  has no way to change the scaler, the files or what the pipeline has shown.
\<close>

theorem model_unavailable:
  assumes "fs ''diabetes_model.pkl'' = None \<or> fs ''diabetes_model.pkl'' = Some Unreadable"
  shows "predict_diabetes sc fs inp =
           Inl (if list_ex (\<lambda>r. length r \<noteq> length (scaler_mean sc)) inp then ValueError
                else if fs ''diabetes_model.pkl'' = None then FileNotFoundError
                else UnpicklingError)
         \<and> (\<forall>fs' msg. predict_diabetes sc fs' inp = Inr msg \<longrightarrow>
               (\<exists>m r. fs' ''diabetes_model.pkl'' = Some (Pickle m) \<and> msg = verdict (m r)))"
proof -
  have a: "predict_diabetes sc fs inp =
           Inl (if list_ex (\<lambda>r. length r \<noteq> length (scaler_mean sc)) inp then ValueError
                else if fs ''diabetes_model.pkl'' = None then FileNotFoundError
                else UnpicklingError)"
    using assms by (auto simp: predict_diabetes_def scaler_transform_def load_def)
  have b: "\<exists>m r. fs' ''diabetes_model.pkl'' = Some (Pickle m) \<and> msg = verdict (m r)"
    if "predict_diabetes sc fs' inp = Inr msg" for fs' msg
    using that
    by (auto simp: predict_diabetes_def load_def predict_def
        split: sum.splits option.splits stored_file.splits list.splits)
  from a b show ?thesis by blast
qed

theorem model_unavailable_witness:
  "(Map.empty ''diabetes_model.pkl'' = (None :: stored_file option)
      \<or> Map.empty ''diabetes_model.pkl'' = Some Unreadable) \<and>
   predict_diabetes demo_scaler Map.empty (input_data demo_env) = Inl FileNotFoundError \<and>
   predict_diabetes demo_scaler [''diabetes_model.pkl'' \<mapsto> Unreadable] (input_data demo_env)
     = Inl UnpicklingError"
proof -
  have h: "Map.empty ''diabetes_model.pkl'' = (None :: stored_file option)
      \<or> Map.empty ''diabetes_model.pkl'' = Some Unreadable" by simp
  have "predict_diabetes demo_scaler [''diabetes_model.pkl'' \<mapsto> Unreadable] (input_data demo_env)
     = Inl UnpicklingError"
    by (simp add: predict_diabetes_def scaler_transform_def load_def demo_scaler_def demo_input)
  with model_unavailable [OF h, of demo_scaler "input_data demo_env"] h show ?thesis
    by (simp add: demo_scaler_def demo_input)
qed




subsection \<open>Hyperparameter tuning\<close>


lemma param_grid_None: "param_grid name = None \<longleftrightarrow> name \<notin> set grid_names"
  by (simp add: param_grid_def grid_names_def)

lemma model_names: "map fst models = [''Logistic Regression'', ''Decision Tree'', ''Random Forest'', ''SVM'', ''AdaBoost'']"
  by (simp add: models_def)

lemma bank_names_are_grid_names: "set (map fst models) = set grid_names"
  unfolding model_names grid_names_def by auto

lemma dict_get_Inr_iff: "(\<exists>v. dict_get d k = Inr v) \<longleftrightarrow> k \<in> set (map fst d)"
proof (cases "map_of d k")
  case None
  then have "k \<notin> set (map fst d)" by (simp add: map_of_eq_None_iff)
  with None show ?thesis by (simp add: dict_get_def)
next
  case (Some v)
  then have "k \<in> set (map fst d)" by (metis map_of_eq_None_iff option.distinct(1) set_map)
  with Some show ?thesis by (simp add: dict_get_def)
qed

lemma dict_get_Inl: "k \<notin> set (map fst d) \<Longrightarrow> dict_get d k = Inl (KeyError k)"
  by (simp add: dict_get_def map_of_eq_None_iff [THEN iffD2])

lemma py_max_mem: "py_max xs key = Inr r \<Longrightarrow> r \<in> set xs"
proof (cases xs)
  case Nil
  assume "py_max xs key = Inr r"
  with Nil show ?thesis by (simp add: py_max_def)
next
  case (Cons x rest)
  assume "py_max xs key = Inr r"
  with Cons have "max_loop key x rest = r" by (simp add: py_max_def)
  from max_loop_split [OF this] obtain pre post where "x # rest = pre @ r # post" by blast
  then have "r \<in> set (x # rest)" by (metis in_set_conv_decomp)
  with Cons show ?thesis by simp
qed












text \<open>
  Claim C6. For a name that none of the five branches matches, the tuning step raises and
  no search is run: \<^verbatim>\<open>KeyError\<close> at the lookup in the bank when the name is not a key of it
  (so for the bank of the script), \<^verbatim>\<open>NameError\<close> for the unbound \<^verbatim>\<open>param_grid\<close> when it is.
\<close>

theorem unknown_model_name_fails:
  assumes "name \<notin> set grid_names"
  shows "tuning e bank name p =
           Inl (if name \<in> set (map fst bank) then NameError ''param_grid'' else KeyError name)
         \<and> tuning e models name p = Inl (KeyError name)"
proof -
  from assms have pg: "param_grid name = None" by (simp add: param_grid_None)
  have a: "tuning e bank name p =
           Inl (if name \<in> set (map fst bank) then NameError ''param_grid'' else KeyError name)"
  proof (cases "name \<in> set (map fst bank)")
    case True
    then have "\<exists>v. dict_get bank name = Inr v" by (simp only: dict_get_Inr_iff)
    then obtain v where "dict_get bank name = Inr v" ..
    with True pg show ?thesis by (simp add: tuning_def)
  next
    case False
    then have "dict_get bank name = Inl (KeyError name)" by (rule dict_get_Inl)
    with False show ?thesis by (simp add: tuning_def)
  qed
  from assms have "name \<notin> set (map fst models)"
    using bank_names_are_grid_names by simp
  then have "dict_get models name = Inl (KeyError name)" by (rule dict_get_Inl)
  then have "tuning e models name p = Inl (KeyError name)" by (simp add: tuning_def)
  with a show ?thesis by simp
qed

theorem unknown_model_name_fails_witness:
  "''Gradient Boosting'' \<notin> set grid_names \<and>
   tuning demo_env demo_bank_extended ''Gradient Boosting'' demo_prepared
     = Inl (NameError ''param_grid'') \<and>
   tuning demo_env models ''Gradient Boosting'' demo_prepared
     = Inl (KeyError ''Gradient Boosting'')"
proof -
  have h: "''Gradient Boosting'' \<notin> set grid_names" by (simp add: grid_names_def)
  have m: "''Gradient Boosting'' \<in> set (map fst demo_bank_extended)"
    by (simp add: demo_bank_extended_def)
  from unknown_model_name_fails [OF h, of demo_env demo_bank_extended demo_prepared] m h
  show ?thesis by simp
qed

text \<open>
  Claim C10. Every name of the Model Bank is matched by a branch of the chain, so for such
  a name the tuning step is the grid search itself; and the name selected from the
  results of the training loop is a name of the bank, so the variable is bound when line
  131 reads it.
\<close>

theorem bank_models_have_grid:
  "(name \<in> set (map fst models) \<longrightarrow>
      (\<exists>base g. dict_get models name = Inr base \<and> param_grid name = Some g \<and>
         tuning e models name p =
           grid_search_fit e
             \<lparr>gs_estimator = base, gs_param_grid = g, gs_cv = 5, gs_scoring = ''f1''\<rparr>
             (X_train p) (y_train p))) \<and>
   (training_loop e p models [] = Inr results \<and> best_model_name results = Inr selected \<longrightarrow>
      selected \<in> set (map fst models) \<and> param_grid selected \<noteq> None)"
proof -
  have a: "\<exists>base g. dict_get models n = Inr base \<and> param_grid n = Some g \<and>
         tuning e models n p =
           grid_search_fit e
             \<lparr>gs_estimator = base, gs_param_grid = g, gs_cv = 5, gs_scoring = ''f1''\<rparr>
             (X_train p) (y_train p)"
    if n: "n \<in> set (map fst models)" for n
  proof -
    from n have "\<exists>v. dict_get models n = Inr v" by (simp only: dict_get_Inr_iff)
    then obtain base where base: "dict_get models n = Inr base" ..
    from n have "n \<in> set grid_names" using bank_names_are_grid_names by simp
    then have "param_grid n \<noteq> None" by (simp add: param_grid_None)
    then obtain g where g: "param_grid n = Some g" by (cases "param_grid n") auto
    have "tuning e models n p =
           grid_search_fit e
             \<lparr>gs_estimator = base, gs_param_grid = g, gs_cv = 5, gs_scoring = ''f1''\<rparr>
             (X_train p) (y_train p)"
      by (simp add: tuning_def base g)
    with base g show ?thesis by blast
  qed
  have b: "selected \<in> set (map fst models) \<and> param_grid selected \<noteq> None"
    if r: "training_loop e p models [] = Inr results" and s: "best_model_name results = Inr selected"
  proof -
    have keys: "map fst results = map fst models"
      using training_loop_keys [OF r] distinct_models by simp
    from s have "selected \<in> set (map fst results)"
      unfolding best_model_name_def by (rule py_max_mem)
    with keys have m: "selected \<in> set (map fst models)" by simp
    then have "selected \<in> set grid_names" using bank_names_are_grid_names by simp
    then have "param_grid selected \<noteq> None" by (simp add: param_grid_None)
    with m show ?thesis by simp
  qed
  from a [of name] b show ?thesis by blast
qed

theorem bank_models_have_grid_witness:
  "''SVM'' \<in> set (map fst models) \<and>
   training_loop demo_env demo_prepared models [] = Inr demo_results \<and>
   best_model_name demo_results = Inr ''Decision Tree'' \<and>
   param_grid ''Decision Tree'' \<noteq> None \<and>
   (\<exists>base g. dict_get models ''SVM'' = Inr base \<and> param_grid ''SVM'' = Some g \<and>
      tuning demo_env models ''SVM'' demo_prepared =
        grid_search_fit demo_env
          \<lparr>gs_estimator = base, gs_param_grid = g, gs_cv = 5, gs_scoring = ''f1''\<rparr>
          (X_train demo_prepared) (y_train demo_prepared))"
proof -
  have h1: "''SVM'' \<in> set (map fst models)" by (simp add: models_def)
  have h2: "training_loop demo_env demo_prepared models [] = Inr demo_results"
    by (rule demo_training_loop)
  have h3: "best_model_name demo_results = Inr ''Decision Tree''"
    by (simp add: best_model_name_def py_max_def demo_results_def f1_of_def)
  note t = bank_models_have_grid
    [of "''SVM''" demo_env demo_prepared demo_results "''Decision Tree''"]
  from t h2 h3 have "param_grid ''Decision Tree'' \<noteq> None" by blast
  moreover from t h1 have "\<exists>base g. dict_get models ''SVM'' = Inr base \<and> param_grid ''SVM'' = Some g \<and>
      tuning demo_env models ''SVM'' demo_prepared =
        grid_search_fit demo_env
          \<lparr>gs_estimator = base, gs_param_grid = g, gs_cv = 5, gs_scoring = ''f1''\<rparr>
          (X_train demo_prepared) (y_train demo_prepared)" by blast
  ultimately show ?thesis using h1 h2 h3 by blast
qed


end
